theory Spec2Isabelle
  imports Main "HOL-Library.AList" "HOL-Library.Monad_Syntax"
begin

section \<open>QuickBot task scheduler (src/internal/scheduler/scheduler.py)\<close>

text \<open>
  A shallow embedding of the scheduler module: the \<open>ScheduledTask\<close> class, the
  \<open>Scheduler\<close> class with its SQLite table, and one wake-up of the polling loop.

  Conventions of the model.
  \<^item> A naive \<open>datetime\<close> is an integer: the number of microseconds on Python's
    proleptic Gregorian time line, day ordinal 1 being 0001-01-01. A \<open>timedelta\<close> is
    an integer number of microseconds. Arithmetic is on unbounded integers: the
    \<open>OverflowError\<close> that Python raises outside the years 1 to 9999 is not part of
    the model, nor are time zones.
  \<^item> Every call of \<open>datetime.now()\<close> is an argument of the function that makes the
    call, so two readings in one function are two arguments.
  \<^item> The functions of the Python standard library that the module calls on text
    (\<open>datetime.fromisoformat\<close>, \<open>datetime.isoformat\<close>, \<open>int\<close>,
    \<open>datetime.strptime\<close> with the format \<open>%H:%M\<close>, \<open>json.dumps\<close>,
    \<open>json.loads\<close>) are the fields of a record \<open>pylib\<close> that every function
    of the model takes. A \<open>ValueError\<close> of the library is the result \<open>None\<close>.
    The definitions and the general theorems hold for every such library; \<open>stdlib\<close>
    below is an executable instance used at concrete inputs.
  \<^item> \<open>uuid.uuid4()\<close> is an argument (the identifier it returns).
  \<^item> The database file can always be read; what a write to it does (it returns, or
    it raises) is an argument of the operations \<open>add_task_io\<close>, \<open>remove_task_io\<close>
    and \<open>finish_unit\<close>.
  \<^item> A unit (the coroutine \<open>_execute_task\<close> that the loop creates for a due task)
    is modelled twice: as asyncio runs it, in the segments \<open>create_units\<close>,
    \<open>start_unit\<close> and \<open>finish_unit\<close> between which anything else can happen, and
    run to its end in one step (\<open>execute_task\<close>, \<open>run_units\<close>), which is what the
    segments do one after the other when the handler does not suspend and the write
    returns.
\<close>

subsection \<open>Time\<close>

type_synonym datetime = int
type_synonym timedelta = int

definition timedelta_minutes :: "int \<Rightarrow> timedelta" where
  "timedelta_minutes m = m * 60000000"

definition timedelta_hours :: "int \<Rightarrow> timedelta" where
  "timedelta_hours h = h * 3600000000"

definition timedelta_days :: "int \<Rightarrow> timedelta" where
  "timedelta_days d = d * 86400000000"

text \<open>\<open>datetime.date()\<close>: the day ordinal of an instant.\<close>

definition date_of :: "datetime \<Rightarrow> int" where
  "date_of t = t div 86400000000"

text \<open>\<open>datetime.combine(date, time)\<close> for a time of day given as hour and minute.\<close>

definition combine :: "int \<Rightarrow> nat \<times> nat \<Rightarrow> datetime" where
  "combine d hm = timedelta_days d + timedelta_hours (int (fst hm)) + timedelta_minutes (int (snd hm))"

subsection \<open>Enumerations, payloads and the task object\<close>

datatype TaskStatus = PENDING | RUNNING | COMPLETED | FAILED | CANCELLED

datatype ScheduleType = ONCE | INTERVAL | CRON

fun ScheduleType_value :: "ScheduleType \<Rightarrow> string" where
  "ScheduleType_value ONCE = ''once''"
| "ScheduleType_value INTERVAL = ''interval''"
| "ScheduleType_value CRON = ''cron''"

text \<open>\<open>ScheduleType(text)\<close>: the member with that value; \<open>None\<close> is the ValueError.\<close>

definition ScheduleType_of :: "string \<Rightarrow> ScheduleType option" where
  "ScheduleType_of s =
     (if s = ''once'' then Some ONCE
      else if s = ''interval'' then Some INTERVAL
      else if s = ''cron'' then Some CRON
      else None)"

text \<open>
  The values a payload dictionary holds: the Python values that \<open>json\<close> writes and
  reads back as themselves (floats are left out). A dictionary is an association list in
  insertion order.
\<close>

datatype pyval =
    PNone
  | PBool bool
  | PInt int
  | PStr string
  | PList "pyval list"
  | PDict "(string \<times> pyval) list"

type_synonym payload = "(string \<times> pyval) list"

record pylib =
  fromisoformat :: "string \<Rightarrow> datetime option"
  isoformat :: "datetime \<Rightarrow> string"
  py_int :: "string \<Rightarrow> int option"
  strptime_HM :: "string \<Rightarrow> (nat \<times> nat) option"
  json_dumps :: "payload \<Rightarrow> string"
  json_loads :: "string \<Rightarrow> payload option"

record task =
  task_id :: string
  name :: string
  schedule_type :: ScheduleType
  schedule_value :: string
  payload :: payload
  session_id :: "string option"
  enabled :: bool
  status :: TaskStatus
  next_run :: datetime
  last_run :: "datetime option"
  run_count :: int

subsection \<open>ScheduledTask\<close>

text \<open>
  \<open>ScheduledTask._calculate_next_run\<close>. It reads \<open>schedule_type\<close> and
  \<open>schedule_value\<close> only, and the constructor calls it before \<open>next_run\<close> is set,
  so these two fields are its arguments. \<open>now\<close> is its reading of the clock. Each
  \<open>try\<close> is a case on the library's result, \<open>None\<close> being the \<open>except ValueError\<close>
  branch. The method's last line, a \<open>return\<close> after the three branches, is reached for
  no member of \<open>ScheduleType\<close>.
\<close>

definition calculate_next_run :: "pylib \<Rightarrow> datetime \<Rightarrow> ScheduleType \<Rightarrow> string \<Rightarrow> datetime" where
  "calculate_next_run lib now st sv =
     (case st of
        ONCE \<Rightarrow>
          (case fromisoformat lib sv of
             Some d \<Rightarrow> d
           | None \<Rightarrow> now + timedelta_hours 1)
      | INTERVAL \<Rightarrow>
          (case py_int lib sv of
             Some minutes \<Rightarrow> now + timedelta_minutes minutes
           | None \<Rightarrow> now + timedelta_hours 1)
      | CRON \<Rightarrow> now + timedelta_hours 1)"

text \<open>\<open>ScheduledTask.__init__\<close>.\<close>

definition ScheduledTask :: "pylib \<Rightarrow> datetime \<Rightarrow> string \<Rightarrow> string \<Rightarrow> ScheduleType \<Rightarrow> string \<Rightarrow>
    payload \<Rightarrow> string option \<Rightarrow> bool \<Rightarrow> task" where
  "ScheduledTask lib now tid nm st sv pl sid en =
     \<lparr> task_id = tid, name = nm, schedule_type = st, schedule_value = sv, payload = pl,
       session_id = sid, enabled = en, status = PENDING,
       next_run = calculate_next_run lib now st sv,
       last_run = None, run_count = 0 \<rparr>"

text \<open>\<open>ScheduledTask.update_next_run\<close>.\<close>

definition update_next_run :: "pylib \<Rightarrow> datetime \<Rightarrow> task \<Rightarrow> task" where
  "update_next_run lib now t =
     (if schedule_type t = ONCE then t\<lparr>enabled := False\<rparr>
      else t\<lparr>next_run := calculate_next_run lib now (schedule_type t) (schedule_value t)\<rparr>)"

subsection \<open>The tasks table\<close>

text \<open>
  One row of the table \<open>tasks\<close> that \<open>Scheduler._init_db\<close> creates, with the
  columns \<open>_save_task\<close> writes. The columns \<open>created_at\<close> and \<open>updated_at\<close> are
  filled by SQLite and never read by the module; they are left out. The table is a list
  of rows in insertion order, each under its primary key \<open>task_id\<close>. There is no
  column for \<open>status\<close>.
\<close>

record row =
  col_task_id :: string
  col_name :: string
  col_schedule_type :: string
  col_schedule_value :: string
  col_payload :: string
  col_session_id :: "string option"
  col_enabled :: int
  col_next_run :: string
  col_last_run :: "string option"
  col_run_count :: int

type_synonym table = "(string \<times> row) list"

datatype handler_result = Returned | RaisedException string | RaisedBaseException string

text \<open>
  \<open>ValueError\<close> is the error \<open>parse_time\<close> raises. \<open>WriteError\<close> stands for whatever
  a method's access to the database raises (a \<open>TypeError\<close> of \<open>json.dumps\<close> on a
  payload it cannot write, an error of \<open>sqlite3\<close>); its text is the exception's.
\<close>

datatype error = ValueError string | WriteError string

text \<open>
  The scheduler: the registry \<open>self.tasks\<close>, the table in the database file, the flag
  \<open>_running\<close> and the handler. Task objects are shared between the registry and the
  units created for them, so the state also holds what asyncio and Python's heap hold:
  \<^item> \<open>created\<close>: the units \<open>asyncio.create_task\<close> has queued and that have not run
    yet, each by the identifier of its task object;
  \<^item> \<open>awaiting\<close>: the units suspended at \<open>await self._task_handler(task)\<close>, each
    with the outcome its handler call is going to have;
  \<^item> \<open>detached\<close>: the task objects \<open>remove_task\<close> has dropped from the registry,
    which a unit may still hold.
  An identifier names one task object in the life of a scheduler: \<open>uuid.uuid4()\<close>
  returns an identifier once, and \<open>_load_tasks\<close> builds one object for a primary key.
\<close>

record scheduler =
  tasks :: "(string \<times> task) list"
  db :: table
  running :: bool
  task_handler :: "(task \<Rightarrow> handler_result) option"
  created :: "string list"
  awaiting :: "(string \<times> handler_result) list"
  detached :: "(string \<times> task) list"

text \<open>The tuple of values \<open>_save_task\<close> binds to the INSERT statement.\<close>

definition row_of :: "pylib \<Rightarrow> task \<Rightarrow> row" where
  "row_of lib t =
     \<lparr> col_task_id = task_id t, col_name = name t,
       col_schedule_type = ScheduleType_value (schedule_type t),
       col_schedule_value = schedule_value t,
       col_payload = json_dumps lib (payload t),
       col_session_id = session_id t,
       col_enabled = (if enabled t then 1 else 0),
       col_next_run = isoformat lib (next_run t),
       col_last_run = map_option (isoformat lib) (last_run t),
       col_run_count = run_count t \<rparr>"

text \<open>
  \<open>Scheduler._save_task\<close>: INSERT OR REPLACE deletes the row under the same primary
  key, if there is one, and inserts the new row.
\<close>

definition save_task :: "pylib \<Rightarrow> task \<Rightarrow> table \<Rightarrow> table" where
  "save_task lib t tbl = AList.delete (task_id t) tbl @ [(task_id t, row_of lib t)]"

text \<open>
  The body of the loop of \<open>Scheduler._load_tasks\<close> for one row. \<open>None\<close> is an
  exception of \<open>ScheduleType(...)\<close>, \<open>json.loads\<close> or \<open>fromisoformat\<close>, which the
  method does not catch. The constructor computes a \<open>next_run\<close> from its own reading
  \<open>now\<close> of the clock; the row's \<open>next_run\<close> then replaces it. The constructor sets
  \<open>status\<close> to PENDING and nothing sets it afterwards.
\<close>

definition load_row :: "pylib \<Rightarrow> datetime \<Rightarrow> row \<Rightarrow> task option" where
  "load_row lib now r =
     (case ScheduleType_of (col_schedule_type r) of
        None \<Rightarrow> None
      | Some st \<Rightarrow>
          (case json_loads lib (col_payload r) of
             None \<Rightarrow> None
           | Some pl \<Rightarrow>
               (let t = ScheduledTask lib now (col_task_id r) (col_name r) st
                          (col_schedule_value r) pl (col_session_id r) (col_enabled r \<noteq> 0)
                in case fromisoformat lib (col_next_run r) of
                     None \<Rightarrow> None
                   | Some nr \<Rightarrow>
                       (case col_last_run r of
                          None \<Rightarrow> Some (t\<lparr>next_run := nr, last_run := None, run_count := col_run_count r\<rparr>)
                        | Some text \<Rightarrow>
                            if text = [] then
                              Some (t\<lparr>next_run := nr, last_run := None, run_count := col_run_count r\<rparr>)
                            else
                              (case fromisoformat lib text of
                                 None \<Rightarrow> None
                               | Some lr \<Rightarrow>
                                   Some (t\<lparr>next_run := nr, last_run := Some lr,
                                           run_count := col_run_count r\<rparr>))))))"

fun load_rows :: "pylib \<Rightarrow> datetime \<Rightarrow> row list \<Rightarrow> (string \<times> task) list \<Rightarrow> (string \<times> task) list option" where
  "load_rows lib now [] reg = Some reg"
| "load_rows lib now (r # rs) reg =
     (case load_row lib now r of
        None \<Rightarrow> None
      | Some t \<Rightarrow> load_rows lib now rs (AList.update (task_id t) t reg))"

text \<open>\<open>Scheduler._load_tasks\<close>: the rows selected are those with \<open>enabled = 1\<close>.\<close>

definition load_tasks :: "pylib \<Rightarrow> datetime \<Rightarrow> scheduler \<Rightarrow> scheduler option" where
  "load_tasks lib now s =
     map_option (\<lambda>reg. s\<lparr>tasks := reg\<rparr>)
       (load_rows lib now (filter (\<lambda>r. col_enabled r = 1) (map snd (db s))) (tasks s))"

text \<open>\<open>Scheduler.__init__\<close> on a database file holding the table \<open>tbl\<close>.\<close>

definition Scheduler :: "pylib \<Rightarrow> datetime \<Rightarrow> table \<Rightarrow> scheduler option" where
  "Scheduler lib now tbl =
     load_tasks lib now \<lparr> tasks = [], db = tbl, running = False, task_handler = None,
                          created = [], awaiting = [], detached = [] \<rparr>"

definition set_task_handler :: "(task \<Rightarrow> handler_result) \<Rightarrow> scheduler \<Rightarrow> scheduler" where
  "set_task_handler h s = s\<lparr>task_handler := Some h\<rparr>"

text \<open>\<open>Scheduler.add_task\<close>; \<open>tid\<close> is the identifier \<open>uuid.uuid4()\<close> returns.\<close>

definition add_task :: "pylib \<Rightarrow> datetime \<Rightarrow> string \<Rightarrow> string \<Rightarrow> ScheduleType \<Rightarrow> string \<Rightarrow>
    payload \<Rightarrow> string option \<Rightarrow> scheduler \<Rightarrow> string \<times> scheduler" where
  "add_task lib now tid nm st sv pl sid s =
     (let t = ScheduledTask lib now tid nm st sv pl sid True
      in (tid, s\<lparr>tasks := AList.update tid t (tasks s), db := save_task lib t (db s)\<rparr>))"

text \<open>
  \<open>Scheduler.add_task\<close> above and \<open>Scheduler.remove_task\<close> here are the methods when
  their access to the database returns; \<open>add_task_io\<close> and \<open>remove_task_io\<close> below
  have the other outcome too. \<open>remove_task\<close> disables the task object and sets its status
  to CANCELLED, deletes the row, and drops the object from the registry; the object goes
  to \<open>detached\<close>.
\<close>

definition remove_task :: "string \<Rightarrow> scheduler \<Rightarrow> bool \<times> scheduler" where
  "remove_task tid s =
     (case map_of (tasks s) tid of
        None \<Rightarrow> (False, s)
      | Some t \<Rightarrow>
          (True, s\<lparr>db := AList.delete tid (db s), tasks := AList.delete tid (tasks s),
                   detached := AList.update tid (t\<lparr>enabled := False, status := CANCELLED\<rparr>)
                                 (detached s)\<rparr>))"

definition get_task :: "scheduler \<Rightarrow> string \<Rightarrow> task option" where
  "get_task s tid = map_of (tasks s) tid"

definition get_all_tasks :: "scheduler \<Rightarrow> task list" where
  "get_all_tasks s = map snd (tasks s)"

subsection \<open>Dispatch\<close>

text \<open>
  What \<open>Scheduler._execute_task\<close> does to the task object, for a handler \<open>h\<close>
  (\<open>None\<close> when none is registered). \<open>t_done\<close> is the clock read after the handler
  returned, \<open>t_next\<close> the clock read by \<open>update_next_run\<close> in the \<open>finally\<close>
  clause. The handler's outcome is a value: it returned, it raised an exception that
  \<open>except Exception\<close> catches, or it raised one that is not an \<open>Exception\<close>
  (\<open>SystemExit\<close>, \<open>KeyboardInterrupt\<close>, \<open>asyncio.CancelledError\<close>), which
  leaves the unit after the \<open>finally\<close> clause has run. The second component of the
  result is the exception that leaves the unit, if any.
\<close>

definition execute_task_obj :: "pylib \<Rightarrow> (task \<Rightarrow> handler_result) option \<Rightarrow> datetime \<Rightarrow> datetime \<Rightarrow>
    task \<Rightarrow> task \<times> string option" where
  "execute_task_obj lib h t_done t_next t =
     (let t1 = t\<lparr>status := RUNNING\<rparr>;
          outcome = (case h of None \<Rightarrow> Returned | Some f \<Rightarrow> f t1);
          body = (case outcome of
                    Returned \<Rightarrow>
                      (t1\<lparr>status := COMPLETED, last_run := Some t_done,
                          run_count := run_count t1 + 1\<rparr>, None)
                  | RaisedException e \<Rightarrow> (t1\<lparr>status := FAILED\<rparr>, None)
                  | RaisedBaseException e \<Rightarrow> (t1, Some e))
      in (update_next_run lib t_next (fst body), snd body))"

text \<open>
  \<open>Scheduler._execute_task\<close> on the scheduler: the task object is changed in place,
  so the registry, which holds the object under its identifier, shows the change; the
  \<open>finally\<close> clause saves the object.
\<close>

definition execute_task :: "pylib \<Rightarrow> datetime \<Rightarrow> datetime \<Rightarrow> scheduler \<Rightarrow> task \<Rightarrow>
    scheduler \<times> string option" where
  "execute_task lib t_done t_next s t =
     (let r = execute_task_obj lib (task_handler s) t_done t_next t
      in (s\<lparr>tasks := AList.map_entry (task_id t) (\<lambda>_. fst r) (tasks s),
            db := save_task lib (fst r) (db s)\<rparr>, snd r))"

text \<open>The selection of \<open>Scheduler._check_and_run_tasks\<close>.\<close>

definition tasks_to_run :: "datetime \<Rightarrow> scheduler \<Rightarrow> task list" where
  "tasks_to_run now s = filter (\<lambda>t. enabled t \<and> next_run t \<le> now) (map snd (tasks s))"

text \<open>
  The units created for the selected tasks, run one after the other. \<open>clk\<close> gives, for
  a task identifier, the two clock readings of its unit. A unit is its own asyncio task:
  an exception that leaves it is kept with it (collected in the result list here) and the
  next unit runs.
\<close>

fun run_units :: "pylib \<Rightarrow> (string \<Rightarrow> datetime \<times> datetime) \<Rightarrow> scheduler \<Rightarrow> task list \<Rightarrow>
    scheduler \<times> string option list" where
  "run_units lib clk s [] = (s, [])"
| "run_units lib clk s (t # ts) =
     (let r = execute_task lib (fst (clk (task_id t))) (snd (clk (task_id t))) s t;
          rest = run_units lib clk (fst r) ts
      in (fst rest, snd r # snd rest))"

definition check_and_run_tasks :: "pylib \<Rightarrow> datetime \<Rightarrow> (string \<Rightarrow> datetime \<times> datetime) \<Rightarrow>
    scheduler \<Rightarrow> scheduler \<times> string option list" where
  "check_and_run_tasks lib now clk s = run_units lib clk s (tasks_to_run now s)"

subsection \<open>Reminders\<close>

text \<open>
  \<open>Scheduler.parse_time\<close>; \<open>now\<close> is the clock read for \<open>today\<close>. The result
  \<open>Inl\<close> is the ValueError the method raises.
\<close>

definition parse_time :: "pylib \<Rightarrow> datetime \<Rightarrow> string \<Rightarrow> error + datetime" where
  "parse_time lib now time_str =
     (case fromisoformat lib time_str of
        Some d \<Rightarrow> Inr d
      | None \<Rightarrow>
          (case strptime_HM lib time_str of
             Some time_part \<Rightarrow> Inr (combine (date_of now) time_part)
           | None \<Rightarrow> Inl (ValueError (''Invalid time format: '' @ time_str))))"

text \<open>
  \<open>Scheduler.add_reminder\<close>. Three clock readings: \<open>now_parse\<close> inside
  \<open>parse_time\<close>, \<open>now\<close> for the comparison, \<open>now_init\<close> inside the task's
  constructor. \<open>description or "Reminder"\<close> takes the default for \<open>None\<close> and for the
  empty string.
\<close>

definition add_reminder :: "pylib \<Rightarrow> datetime \<Rightarrow> datetime \<Rightarrow> datetime \<Rightarrow> string \<Rightarrow> string \<Rightarrow> string \<Rightarrow>
    string \<Rightarrow> string option \<Rightarrow> scheduler \<Rightarrow> error + (string \<times> scheduler)" where
  "add_reminder lib now_parse now now_init tid sid message remind_at description s =
     (case parse_time lib now_parse remind_at of
        Inl e \<Rightarrow> Inl e
      | Inr parsed \<Rightarrow>
          (let remind_time = (if parsed \<le> now then parsed + timedelta_days 1 else parsed);
               pl = [(''type'', PStr ''reminder''), (''message'', PStr message)];
               nm = (case description of
                       None \<Rightarrow> ''Reminder''
                     | Some d \<Rightarrow> if d = [] then ''Reminder'' else d)
           in Inr (add_task lib now_init tid nm ONCE (isoformat lib remind_time) pl (Some sid) s)))"

subsection \<open>An executable instance of the library\<close>

text \<open>
  \<open>stdlib\<close> implements the six library functions on ASCII text, for use at concrete
  inputs. It follows CPython:
  \<^item> \<open>int(text)\<close>: surrounding whitespace, an optional sign, decimal digits with single
    underscores between digits;
  \<^item> \<open>strptime(text, "%H:%M")\<close>: the regular expression of \<open>_strptime\<close>, an hour
    \<open>2[0-3]|[0-1]\d|\d\<close>, a colon, a minute \<open>[0-5]\d|\d\<close>, and nothing after;
  \<^item> \<open>fromisoformat\<close>: the format \<open>YYYY-MM-DD[*HH[:MM[:SS[.fff[fff]]]]]\<close> (every
    version of Python accepts it; later versions accept more, and offsets, which this
    instance rejects); \<open>isoformat\<close>: \<open>YYYY-MM-DDTHH:MM:SS[.ffffff]\<close>; the calendar is
    that of \<open>_ymd2ord\<close> and \<open>_ord2ymd\<close> in \<open>datetime.py\<close>;
  \<^item> \<open>json.dumps\<close> with its default separators and \<open>ensure_ascii\<close>; \<open>json.loads\<close>
    for documents without floats whose top level is an object.
  No general theorem below depends on this instance.
\<close>

definition is_digit :: "char \<Rightarrow> bool" where
  "is_digit c = (48 \<le> (of_char c :: int) \<and> (of_char c :: int) \<le> 57)"

definition digit_val :: "char \<Rightarrow> int" where
  "digit_val c = of_char c - 48"

definition digit_char :: "int \<Rightarrow> char" where
  "digit_char n = char_of (48 + n)"

function dec :: "int \<Rightarrow> string" where
  "dec n = (if n < 10 then [digit_char n] else dec (n div 10) @ [digit_char (n mod 10)])"
  by pat_completeness auto
termination
  by (relation "measure nat") auto

declare dec.simps [simp del]

definition pad :: "nat \<Rightarrow> int \<Rightarrow> string" where
  "pad w n = replicate (w - length (dec n)) (CHR ''0'') @ dec n"

fun digits_value :: "int \<Rightarrow> string \<Rightarrow> int option" where
  "digits_value acc [] = Some acc"
| "digits_value acc (c # cs) =
     (if is_digit c then digits_value (acc * 10 + digit_val c) cs else None)"

definition number :: "string \<Rightarrow> int option" where
  "number s = (if s = [] then None else digits_value 0 s)"

paragraph \<open>int(text)\<close>

definition is_space :: "char \<Rightarrow> bool" where
  "is_space c = (let n = (of_char c :: int) in (9 \<le> n \<and> n \<le> 13) \<or> n = 32)"

definition strip :: "string \<Rightarrow> string" where
  "strip s = rev (dropWhile is_space (rev (dropWhile is_space s)))"

fun grouped_digits :: "int \<Rightarrow> string \<Rightarrow> int option" where
  "grouped_digits acc [] = Some acc"
| "grouped_digits acc [c] = (if is_digit c then Some (acc * 10 + digit_val c) else None)"
| "grouped_digits acc (c # d # cs) =
     (if is_digit c then grouped_digits (acc * 10 + digit_val c) (d # cs)
      else if c = CHR ''_'' \<and> is_digit d then grouped_digits acc (d # cs)
      else None)"

definition unsigned_int :: "string \<Rightarrow> int option" where
  "unsigned_int s =
     (case s of [] \<Rightarrow> None | c # cs \<Rightarrow> if is_digit c then grouped_digits 0 s else None)"

definition int_of_text :: "string \<Rightarrow> int option" where
  "int_of_text s =
     (case strip s of
        [] \<Rightarrow> None
      | c # cs \<Rightarrow>
          if c = CHR ''-'' then map_option uminus (unsigned_int cs)
          else if c = CHR ''+'' then unsigned_int cs
          else unsigned_int (c # cs))"

paragraph \<open>strptime(text, "%H:%M")\<close>

definition minute_part :: "int \<Rightarrow> string \<Rightarrow> (nat \<times> nat) option" where
  "minute_part h s =
     (case s of
        [k, c, d] \<Rightarrow>
          if k = CHR '':'' \<and> is_digit c \<and> digit_val c \<le> 5 \<and> is_digit d
          then Some (nat h, nat (10 * digit_val c + digit_val d)) else None
      | [k, c] \<Rightarrow> if k = CHR '':'' \<and> is_digit c then Some (nat h, nat (digit_val c)) else None
      | _ \<Rightarrow> None)"

definition strptime_HM_text :: "string \<Rightarrow> (nat \<times> nat) option" where
  "strptime_HM_text s =
     (case s of
        [] \<Rightarrow> None
      | a # rest \<Rightarrow>
          if \<not> is_digit a then None
          else
            (case rest of
               [] \<Rightarrow> None
             | b # rest' \<Rightarrow>
                 if is_digit b \<and> (digit_val a \<le> 1 \<or> (digit_val a = 2 \<and> digit_val b \<le> 3))
                 then minute_part (10 * digit_val a + digit_val b) rest'
                 else minute_part (digit_val a) rest))"

paragraph \<open>The calendar of datetime\<close>

definition is_leap :: "int \<Rightarrow> bool" where
  "is_leap y = (y mod 4 = 0 \<and> (y mod 100 \<noteq> 0 \<or> y mod 400 = 0))"

definition days_before_year :: "int \<Rightarrow> int" where
  "days_before_year year = (let y = year - 1 in y * 365 + y div 4 - y div 100 + y div 400)"

definition DAYS_IN_MONTH :: "int list" where
  "DAYS_IN_MONTH = [0, 31, 28, 31, 30, 31, 30, 31, 31, 30, 31, 30, 31]"

definition DAYS_BEFORE_MONTH :: "int list" where
  "DAYS_BEFORE_MONTH = [0, 0, 31, 59, 90, 120, 151, 181, 212, 243, 273, 304, 334]"

definition days_in_month :: "int \<Rightarrow> int \<Rightarrow> int" where
  "days_in_month y m = (if m = 2 \<and> is_leap y then 29 else DAYS_IN_MONTH ! nat m)"

definition days_before_month :: "int \<Rightarrow> int \<Rightarrow> int" where
  "days_before_month y m = DAYS_BEFORE_MONTH ! nat m + (if m > 2 \<and> is_leap y then 1 else 0)"

definition ymd2ord :: "int \<Rightarrow> int \<Rightarrow> int \<Rightarrow> int" where
  "ymd2ord y m d = days_before_year y + days_before_month y m + d"

definition ord2ymd :: "int \<Rightarrow> int \<times> int \<times> int" where
  "ord2ymd ordinal =
     (let n = ordinal - 1;
          n400 = n div 146097; n = n mod 146097;
          n100 = n div 36524; n = n mod 36524;
          n4 = n div 1461; n = n mod 1461;
          n1 = n div 365; n = n mod 365;
          year = n400 * 400 + 1 + n100 * 100 + n4 * 4 + n1
      in if n1 = 4 \<or> n100 = 4 then (year - 1, 12, 31)
         else
           (let leapyear = (n1 = 3 \<and> (n4 \<noteq> 24 \<or> n100 = 3));
                month = (n + 50) div 32;
                preceding = DAYS_BEFORE_MONTH ! nat month + (if month > 2 \<and> leapyear then 1 else 0)
            in if preceding > n
               then (let month' = month - 1;
                         preceding' = preceding -
                           (DAYS_IN_MONTH ! nat month' + (if month' = 2 \<and> leapyear then 1 else 0))
                     in (year, month', n - preceding' + 1))
               else (year, month, n - preceding + 1)))"

paragraph \<open>datetime.isoformat() and datetime.fromisoformat(text)\<close>

definition isoformat_text :: "int \<Rightarrow> string" where
  "isoformat_text t =
     (let n = t; us = n mod 86400000000;
          ymd = ord2ymd (n div 86400000000);
          f = us mod 1000000
      in pad 4 (fst ymd) @ ''-'' @ pad 2 (fst (snd ymd)) @ ''-'' @ pad 2 (snd (snd ymd)) @ ''T''
         @ pad 2 (us div 3600000000) @ '':'' @ pad 2 (us div 60000000 mod 60) @ '':''
         @ pad 2 (us div 1000000 mod 60) @ (if f = 0 then [] else ''.'' @ pad 6 f))"

definition date_part :: "string \<Rightarrow> int option" where
  "date_part s =
     (if length s = 10 \<and> s ! 4 = CHR ''-'' \<and> s ! 7 = CHR ''-'' then
        do {
          y \<leftarrow> number (take 4 s);
          m \<leftarrow> number (take 2 (drop 5 s));
          d \<leftarrow> number (drop 8 s);
          if 1 \<le> y \<and> 1 \<le> m \<and> m \<le> 12 \<and> 1 \<le> d \<and> d \<le> days_in_month y m
          then Some (ymd2ord y m d) else None
        }
      else None)"

definition fraction_part :: "string \<Rightarrow> int option" where
  "fraction_part s =
     (if s = [] then Some 0
      else if hd s = CHR ''.'' \<and> length s = 4 then map_option (\<lambda>n. n * 1000) (number (tl s))
      else if hd s = CHR ''.'' \<and> length s = 7 then number (tl s)
      else None)"

definition time_part :: "string \<Rightarrow> int option" where
  "time_part s =
     do {
       h \<leftarrow> number (take 2 s);
       mi \<leftarrow> (if length s = 2 then Some 0
               else if length s \<ge> 5 \<and> s ! 2 = CHR '':'' then number (take 2 (drop 3 s)) else None);
       se \<leftarrow> (if length s \<le> 5 then Some 0
               else if length s \<ge> 8 \<and> s ! 5 = CHR '':'' then number (take 2 (drop 6 s)) else None);
       f \<leftarrow> fraction_part (drop 8 s);
       if length s \<ge> 2 \<and> h \<le> 23 \<and> mi \<le> 59 \<and> se \<le> 59
       then Some (h * 3600000000 + mi * 60000000 + se * 1000000 + f) else None
     }"

definition fromisoformat_text :: "string \<Rightarrow> int option" where
  "fromisoformat_text s =
     do {
       d \<leftarrow> date_part (take 10 s);
       us \<leftarrow> (if length s \<le> 10 then Some 0 else time_part (drop 11 s));
       Some (d * 86400000000 + us)
     }"


paragraph \<open>json.dumps and json.loads\<close>

definition hex_digit :: "int \<Rightarrow> char" where
  "hex_digit n = (if n < 10 then char_of (48 + n) else char_of (87 + n))"

definition escape_char :: "char \<Rightarrow> string" where
  "escape_char c =
     (let n = (of_char c :: int) in
      if n = 34 then [CHR 0x5C, CHR 0x22]
      else if n = 92 then [CHR 0x5C, CHR 0x5C]
      else if n = 10 then [CHR 0x5C, CHR ''n'']
      else if n = 13 then [CHR 0x5C, CHR ''r'']
      else if n = 9 then [CHR 0x5C, CHR ''t'']
      else if n = 8 then [CHR 0x5C, CHR ''b'']
      else if n = 12 then [CHR 0x5C, CHR ''f'']
      else if 32 \<le> n \<and> n \<le> 126 then [c]
      else [CHR 0x5C, CHR ''u'', CHR ''0'', CHR ''0'', hex_digit (n div 16), hex_digit (n mod 16)])"

definition dumps_str :: "string \<Rightarrow> string" where
  "dumps_str s = CHR 0x22 # concat (map escape_char s) @ [CHR 0x22]"

fun join :: "string \<Rightarrow> string list \<Rightarrow> string" where
  "join sep [] = []"
| "join sep [x] = x"
| "join sep (x # y # ys) = x @ sep @ join sep (y # ys)"

fun dumps_val :: "pyval \<Rightarrow> string" where
  "dumps_val PNone = ''null''"
| "dumps_val (PBool b) = (if b then ''true'' else ''false'')"
| "dumps_val (PInt i) = (if i < 0 then CHR ''-'' # dec (- i) else dec i)"
| "dumps_val (PStr s) = dumps_str s"
| "dumps_val (PList vs) = ''['' @ join '', '' (map dumps_val vs) @ '']''"
| "dumps_val (PDict kvs) =
     ''{'' @ join '', '' (map (\<lambda>kv. dumps_str (fst kv) @ '': '' @ dumps_val (snd kv)) kvs) @ ''}''"

definition json_dumps_text :: "payload \<Rightarrow> string" where
  "json_dumps_text p = dumps_val (PDict p)"

definition is_json_space :: "char \<Rightarrow> bool" where
  "is_json_space c = (let n = (of_char c :: int) in n = 32 \<or> n = 9 \<or> n = 10 \<or> n = 13)"

definition hex_val :: "char \<Rightarrow> int option" where
  "hex_val c =
     (let n = (of_char c :: int) in
      if 48 \<le> n \<and> n \<le> 57 then Some (n - 48)
      else if 97 \<le> n \<and> n \<le> 102 then Some (n - 87)
      else if 65 \<le> n \<and> n \<le> 70 then Some (n - 55)
      else None)"

definition unescape :: "char \<Rightarrow> char option" where
  "unescape e =
     (if e = CHR 0x22 \<or> e = CHR 0x5C \<or> e = CHR ''/'' then Some e
      else if e = CHR ''n'' then Some (CHR 0x0A)
      else if e = CHR ''r'' then Some (CHR 0x0D)
      else if e = CHR ''t'' then Some (CHR 0x09)
      else if e = CHR ''b'' then Some (CHR 0x08)
      else if e = CHR ''f'' then Some (CHR 0x0C)
      else None)"

text \<open>The text of a string after its opening quote; \<open>acc\<close> holds what was read, reversed.\<close>

fun string_body :: "string \<Rightarrow> string \<Rightarrow> (string \<times> string) option" where
  "string_body acc [] = None"
| "string_body acc (c # cs) =
     (if c = CHR 0x22 then Some (rev acc, cs)
      else if c = CHR 0x5C then
        (case cs of
           [] \<Rightarrow> None
         | e # es \<Rightarrow>
             if e = CHR ''u'' then
               (case es of
                  a # b # x # y # rest \<Rightarrow>
                    (case (hex_val a, hex_val b, hex_val x, hex_val y) of
                       (Some p, Some q, Some h, Some l) \<Rightarrow>
                         if p = 0 \<and> q = 0 then string_body (char_of (16 * h + l) # acc) rest
                         else None
                     | _ \<Rightarrow> None)
                | _ \<Rightarrow> None)
             else
               (case unescape e of
                  None \<Rightarrow> None
                | Some ch \<Rightarrow> string_body (ch # acc) es))
      else if (of_char c :: int) < 32 then None
      else string_body (c # acc) cs)"

definition json_number :: "string \<Rightarrow> (pyval \<times> string) option" where
  "json_number s =
     (let neg = (s \<noteq> [] \<and> hd s = CHR ''-'');
          body = (if neg then tl s else s);
          ds = takeWhile is_digit body;
          rest = dropWhile is_digit body
      in if ds = [] \<or> (hd ds = CHR ''0'' \<and> length ds > 1) then None
         else if rest \<noteq> [] \<and> (hd rest = CHR ''.'' \<or> hd rest = CHR ''e'' \<or> hd rest = CHR ''E'') then None
         else map_option (\<lambda>n. (PInt (if neg then - n else n), rest)) (digits_value 0 ds))"

definition literal :: "string \<Rightarrow> pyval \<Rightarrow> string \<Rightarrow> (pyval \<times> string) option" where
  "literal w v s = (if take (length w) s = w then Some (v, drop (length w) s) else None)"

text \<open>
  The recursive descent of the decoder. The first argument bounds the depth of the
  recursion; \<open>json_loads_text\<close> starts it with more than the text can use.
\<close>

fun json_value :: "nat \<Rightarrow> string \<Rightarrow> (pyval \<times> string) option"
  and json_elements :: "nat \<Rightarrow> pyval list \<Rightarrow> string \<Rightarrow> (pyval list \<times> string) option"
  and json_members :: "nat \<Rightarrow> payload \<Rightarrow> string \<Rightarrow> (payload \<times> string) option" where
  "json_value 0 s = None"
| "json_value (Suc n) s =
     (case dropWhile is_json_space s of
        [] \<Rightarrow> None
      | c # cs \<Rightarrow>
          if c = CHR 0x22 then map_option (\<lambda>r. (PStr (fst r), snd r)) (string_body [] cs)
          else if c = CHR ''['' then
            (case dropWhile is_json_space cs of
               [] \<Rightarrow> None
             | d # ds \<Rightarrow>
                 if d = CHR '']'' then Some (PList [], ds)
                 else map_option (\<lambda>r. (PList (fst r), snd r)) (json_elements n [] cs))
          else if c = CHR ''{'' then
            (case dropWhile is_json_space cs of
               [] \<Rightarrow> None
             | d # ds \<Rightarrow>
                 if d = CHR ''}'' then Some (PDict [], ds)
                 else map_option (\<lambda>r. (PDict (fst r), snd r)) (json_members n [] cs))
          else if c = CHR ''n'' then literal ''null'' PNone (c # cs)
          else if c = CHR ''t'' then literal ''true'' (PBool True) (c # cs)
          else if c = CHR ''f'' then literal ''false'' (PBool False) (c # cs)
          else json_number (c # cs))"
| "json_elements 0 acc s = None"
| "json_elements (Suc n) acc s =
     (case json_value n s of
        None \<Rightarrow> None
      | Some (v, rest) \<Rightarrow>
          (case dropWhile is_json_space rest of
             [] \<Rightarrow> None
           | c # cs \<Rightarrow>
               if c = CHR '','' then json_elements n (acc @ [v]) cs
               else if c = CHR '']'' then Some (acc @ [v], cs)
               else None))"
| "json_members 0 acc s = None"
| "json_members (Suc n) acc s =
     (case dropWhile is_json_space s of
        [] \<Rightarrow> None
      | q # qs \<Rightarrow>
          if q \<noteq> CHR 0x22 then None
          else
            (case string_body [] qs of
               None \<Rightarrow> None
             | Some (k, rest) \<Rightarrow>
                 (case dropWhile is_json_space rest of
                    [] \<Rightarrow> None
                  | c # cs \<Rightarrow>
                      if c \<noteq> CHR '':'' then None
                      else
                        (case json_value n cs of
                           None \<Rightarrow> None
                         | Some (v, rest') \<Rightarrow>
                             (case dropWhile is_json_space rest' of
                                [] \<Rightarrow> None
                              | d # ds \<Rightarrow>
                                  if d = CHR '','' then json_members n (AList.update k v acc) ds
                                  else if d = CHR ''}'' then Some (AList.update k v acc, ds)
                                  else None)))))"

definition json_loads_text :: "string \<Rightarrow> payload option" where
  "json_loads_text s =
     (case json_value (2 * length s + 2) s of
        Some (PDict d, rest) \<Rightarrow> if dropWhile is_json_space rest = [] then Some d else None
      | _ \<Rightarrow> None)"

definition stdlib :: pylib where
  "stdlib =
     \<lparr> fromisoformat = fromisoformat_text, isoformat = isoformat_text, py_int = int_of_text,
       strptime_HM = strptime_HM_text, json_dumps = json_dumps_text,
       json_loads = json_loads_text \<rparr>"

subsection \<open>Runs without suspension\<close>

text \<open>
  The calls a host can make on one \<open>Scheduler\<close> object, and the iterations of the
  loop of \<open>Scheduler.start\<close>, in a run where no handler suspends and every write
  returns. \<open>StartLoop\<close> is the entry of \<open>start\<close> (it sets \<open>_running\<close>),
  \<open>WakeUp\<close> one iteration of its \<open>while self._running\<close> loop with the units it
  creates, each run to its end, \<open>StopLoop\<close> is \<open>stop\<close>. An \<open>add_reminder\<close> that
  raises leaves the scheduler as it was.
\<close>

definition stop :: "scheduler \<Rightarrow> scheduler" where
  "stop s = s\<lparr>running := False\<rparr>"

definition loop_iteration :: "pylib \<Rightarrow> datetime \<Rightarrow> (string \<Rightarrow> datetime \<times> datetime) \<Rightarrow>
    scheduler \<Rightarrow> scheduler" where
  "loop_iteration lib now clk s =
     (if running s then fst (check_and_run_tasks lib now clk s) else s)"

datatype op =
    AddTask datetime string string ScheduleType string payload "string option"
  | AddReminder datetime datetime datetime string string string string "string option"
  | RemoveTask string
  | SetTaskHandler "task \<Rightarrow> handler_result"
  | StartLoop
  | StopLoop
  | WakeUp datetime "string \<Rightarrow> datetime \<times> datetime"

fun apply_op :: "pylib \<Rightarrow> scheduler \<Rightarrow> op \<Rightarrow> scheduler" where
  "apply_op lib s (AddTask now tid nm st sv pl sid) = snd (add_task lib now tid nm st sv pl sid s)"
| "apply_op lib s (AddReminder now_parse now now_init tid sid message remind_at description) =
     (case add_reminder lib now_parse now now_init tid sid message remind_at description s of
        Inl e \<Rightarrow> s
      | Inr r \<Rightarrow> snd r)"
| "apply_op lib s (RemoveTask tid) = snd (remove_task tid s)"
| "apply_op lib s (SetTaskHandler h) = set_task_handler h s"
| "apply_op lib s StartLoop = s\<lparr>running := True\<rparr>"
| "apply_op lib s StopLoop = stop s"
| "apply_op lib s (WakeUp now clk) = loop_iteration lib now clk s"

definition run_ops :: "pylib \<Rightarrow> scheduler \<Rightarrow> op list \<Rightarrow> scheduler" where
  "run_ops lib s ops = foldl (apply_op lib) s ops"

subsection \<open>Units as asyncio runs them\<close>

text \<open>
  What a write to the database does in the method that makes it: it returns, or it
  raises (\<open>json.dumps\<close> on a payload it cannot write, \<open>sqlite3\<close> on the file).
\<close>

datatype write_outcome = Written | WriteRaised string

text \<open>
  The task object an identifier names: the registry's, or else a detached one. An
  assignment to its fields shows wherever the object is held.
\<close>

definition task_object :: "scheduler \<Rightarrow> string \<Rightarrow> task option" where
  "task_object s k =
     (case map_of (tasks s) k of Some t \<Rightarrow> Some t | None \<Rightarrow> map_of (detached s) k)"

definition put_task_object :: "string \<Rightarrow> task \<Rightarrow> scheduler \<Rightarrow> scheduler" where
  "put_task_object k t s =
     (if k \<in> fst ` set (tasks s) then s\<lparr>tasks := AList.map_entry k (\<lambda>_. t) (tasks s)\<rparr>
      else s\<lparr>detached := AList.map_entry k (\<lambda>_. t) (detached s)\<rparr>)"

text \<open>
  \<open>Scheduler._check_and_run_tasks\<close> as it is written: it selects the due tasks and
  calls \<open>asyncio.create_task\<close> for each; when it returns no unit has run yet.
\<close>

definition create_units :: "datetime \<Rightarrow> scheduler \<Rightarrow> scheduler" where
  "create_units now s = s\<lparr>created := created s @ map task_id (tasks_to_run now s)\<rparr>"

text \<open>
  The first segment of \<open>Scheduler._execute_task\<close>, from its start to
  \<open>await self._task_handler(task)\<close>: the status becomes RUNNING and the handler is
  called on the task. With no handler the unit does not suspend and its second segment
  follows at once.
\<close>

definition start_unit :: "string \<Rightarrow> scheduler \<Rightarrow> scheduler" where
  "start_unit k s =
     (case task_object s k of
        None \<Rightarrow> s
      | Some t \<Rightarrow>
          (let t1 = t\<lparr>status := RUNNING\<rparr>;
               outcome = (case task_handler s of None \<Rightarrow> Returned | Some f \<Rightarrow> f t1)
           in (put_task_object k t1 s)\<lparr>created := remove1 k (created s),
                                         awaiting := awaiting s @ [(k, outcome)]\<rparr>))"

text \<open>
  The second segment on the task object, from the handler's outcome to
  \<open>update_next_run\<close> in the \<open>finally\<close> clause. It works on the object as it is
  then, which another unit of the same task may have changed.
\<close>

definition finish_task_obj :: "pylib \<Rightarrow> handler_result \<Rightarrow> datetime \<Rightarrow> datetime \<Rightarrow> task \<Rightarrow>
    task \<times> string option" where
  "finish_task_obj lib outcome t_done t_next t1 =
     (let body = (case outcome of
                    Returned \<Rightarrow>
                      (t1\<lparr>status := COMPLETED, last_run := Some t_done,
                          run_count := run_count t1 + 1\<rparr>, None)
                  | RaisedException e \<Rightarrow> (t1\<lparr>status := FAILED\<rparr>, None)
                  | RaisedBaseException e \<Rightarrow> (t1, Some e))
      in (update_next_run lib t_next (fst body), snd body))"

text \<open>
  The second segment on the scheduler, for the first unit of \<open>k\<close> that is awaiting its
  handler. \<open>_save_task\<close> is the last statement of the \<open>finally\<close> clause: when it
  raises, the object is already changed, the table is not, and its exception is the one
  that leaves the unit.
\<close>

definition finish_unit :: "pylib \<Rightarrow> string \<Rightarrow> datetime \<Rightarrow> datetime \<Rightarrow> write_outcome \<Rightarrow> scheduler \<Rightarrow>
    scheduler \<times> string option" where
  "finish_unit lib k t_done t_next w s =
     (case task_object s k of
        None \<Rightarrow> (s, None)
      | Some t \<Rightarrow>
          (case map_of (awaiting s) k of
             None \<Rightarrow> (s, None)
           | Some outcome \<Rightarrow>
               (let r = finish_task_obj lib outcome t_done t_next t;
                    s1 = (put_task_object k (fst r) s)
                           \<lparr>awaiting := remove1 (k, outcome) (awaiting s)\<rparr>
                in case w of
                     Written \<Rightarrow> (s1\<lparr>db := save_task lib (fst r) (db s)\<rparr>, snd r)
                   | WriteRaised e \<Rightarrow> (s1, Some e))))"

text \<open>
  \<open>Scheduler.add_task\<close> with both outcomes of \<open>_save_task\<close>: the task is stored in
  \<open>self.tasks\<close> before the write, so a write that raises leaves it in the registry.
\<close>

definition add_task_io :: "pylib \<Rightarrow> datetime \<Rightarrow> string \<Rightarrow> string \<Rightarrow> ScheduleType \<Rightarrow> string \<Rightarrow>
    payload \<Rightarrow> string option \<Rightarrow> write_outcome \<Rightarrow> scheduler \<Rightarrow> (error + string) \<times> scheduler" where
  "add_task_io lib now tid nm st sv pl sid w s =
     (case w of
        Written \<Rightarrow> (Inr tid, snd (add_task lib now tid nm st sv pl sid s))
      | WriteRaised e \<Rightarrow>
          (Inl (WriteError e),
           s\<lparr>tasks := AList.update tid (ScheduledTask lib now tid nm st sv pl sid True) (tasks s)\<rparr>))"

definition add_reminder_io :: "pylib \<Rightarrow> datetime \<Rightarrow> datetime \<Rightarrow> datetime \<Rightarrow> string \<Rightarrow> string \<Rightarrow> string \<Rightarrow>
    string \<Rightarrow> string option \<Rightarrow> write_outcome \<Rightarrow> scheduler \<Rightarrow> (error + string) \<times> scheduler" where
  "add_reminder_io lib now_parse now now_init tid sid message remind_at description w s =
     (case parse_time lib now_parse remind_at of
        Inl e \<Rightarrow> (Inl e, s)
      | Inr parsed \<Rightarrow>
          (let remind_time = (if parsed \<le> now then parsed + timedelta_days 1 else parsed);
               pl = [(''type'', PStr ''reminder''), (''message'', PStr message)];
               nm = (case description of
                       None \<Rightarrow> ''Reminder''
                     | Some d \<Rightarrow> if d = [] then ''Reminder'' else d)
           in add_task_io lib now_init tid nm ONCE (isoformat lib remind_time) pl (Some sid) w s))"

text \<open>
  \<open>Scheduler.remove_task\<close> with both outcomes of the DELETE: the object is disabled
  and CANCELLED before the statement, and leaves the registry after it.
\<close>

definition remove_task_io :: "string \<Rightarrow> write_outcome \<Rightarrow> scheduler \<Rightarrow> (error + bool) \<times> scheduler" where
  "remove_task_io tid w s =
     (case w of
        Written \<Rightarrow> (Inr (fst (remove_task tid s)), snd (remove_task tid s))
      | WriteRaised e \<Rightarrow>
          (if tid \<notin> fst ` set (tasks s) then (Inr False, s)
           else (Inl (WriteError e),
                 s\<lparr>tasks := AList.map_entry tid (\<lambda>t. t\<lparr>enabled := False, status := CANCELLED\<rparr>)
                               (tasks s)\<rparr>)))"

text \<open>
  What can happen to a scheduler, one event at a time: the calls of the host, an
  iteration of the loop of \<open>start\<close> (it creates units and goes to sleep), and the two
  segments of each unit, in any order asyncio may run them. An identifier in use names
  an object or a row already; \<open>uuid.uuid4()\<close> does not return such an identifier, so
  an event that would create a task under it does not happen and leaves the state as it
  is. A unit starts only when it has been created, and finishes only when it is awaiting.
\<close>

datatype event =
    EvAddTask datetime string string ScheduleType string payload "string option" write_outcome
  | EvAddReminder datetime datetime datetime string string string string "string option"
      write_outcome
  | EvRemoveTask string write_outcome
  | EvSetTaskHandler "task \<Rightarrow> handler_result"
  | EvStart
  | EvStop
  | EvWakeUp datetime
  | EvUnitStart string
  | EvUnitFinish string datetime datetime write_outcome

definition id_in_use :: "scheduler \<Rightarrow> string \<Rightarrow> bool" where
  "id_in_use s k = (k \<in> fst ` set (tasks s) \<union> fst ` set (detached s) \<union> fst ` set (db s))"

fun apply_event :: "pylib \<Rightarrow> scheduler \<Rightarrow> event \<Rightarrow> scheduler" where
  "apply_event lib s (EvAddTask now tid nm st sv pl sid w) =
     (if id_in_use s tid then s else snd (add_task_io lib now tid nm st sv pl sid w s))"
| "apply_event lib s (EvAddReminder now_parse now now_init tid sid message remind_at description w) =
     (if id_in_use s tid then s
      else snd (add_reminder_io lib now_parse now now_init tid sid message remind_at description w s))"
| "apply_event lib s (EvRemoveTask tid w) = snd (remove_task_io tid w s)"
| "apply_event lib s (EvSetTaskHandler h) = set_task_handler h s"
| "apply_event lib s EvStart = s\<lparr>running := True\<rparr>"
| "apply_event lib s EvStop = stop s"
| "apply_event lib s (EvWakeUp now) = (if running s then create_units now s else s)"
| "apply_event lib s (EvUnitStart k) = (if k \<in> set (created s) then start_unit k s else s)"
| "apply_event lib s (EvUnitFinish k t_done t_next w) = fst (finish_unit lib k t_done t_next w s)"

definition run_events :: "pylib \<Rightarrow> scheduler \<Rightarrow> event list \<Rightarrow> scheduler" where
  "run_events lib s evs = foldl (apply_event lib) s evs"


subsection \<open>Notions used to state the properties\<close>

text \<open>
  The registry is a Python dictionary whose keys are the identifiers of the task objects
  it holds: the keys are distinct and every object is stored under its own identifier.
\<close>

definition registry_ok :: "scheduler \<Rightarrow> bool" where
  "registry_ok s = (distinct (map fst (tasks s)) \<and> (\<forall>kv\<in>set (tasks s). task_id (snd kv) = fst kv))"

text \<open>The task object a unit leaves behind, with the clock readings \<open>clk\<close> gives it.\<close>

definition unit_result :: "pylib \<Rightarrow> (task \<Rightarrow> handler_result) option \<Rightarrow> (string \<Rightarrow> datetime \<times> datetime) \<Rightarrow> task \<Rightarrow> task" where
  "unit_result lib h clk t = fst (execute_task_obj lib h (fst (clk (task_id t))) (snd (clk (task_id t))) t)"

text \<open>
  The object \<open>Scheduler.__init__\<close> builds for a database file that holds no row.
\<close>

definition empty_scheduler :: scheduler where
  "empty_scheduler = \<lparr> tasks = [], db = [], running = False, task_handler = None,
                       created = [], awaiting = [], detached = [] \<rparr>"

text \<open>
  A timestamp survives its ISO-8601 text. Python's \<open>datetime\<close> has this property for
  every naive timestamp; the theorems that need it ask it of the timestamps they write.
\<close>

definition iso_roundtrip :: "pylib \<Rightarrow> datetime \<Rightarrow> bool" where
  "iso_roundtrip lib d = (fromisoformat lib (isoformat lib d) = Some d \<and> isoformat lib d \<noteq> [])"

text \<open>
  The payload and the timestamps of a task survive the texts \<open>_save_task\<close> writes for
  them.
\<close>

definition codec_ok :: "pylib \<Rightarrow> task \<Rightarrow> bool" where
  "codec_ok lib t =
     (json_loads lib (json_dumps lib (payload t)) = Some (payload t) \<and>
      iso_roundtrip lib (next_run t) \<and>
      (case last_run t of None \<Rightarrow> True | Some l \<Rightarrow> iso_roundtrip lib l))"

text \<open>
  The registry mirrors the store: every task of the registry has, under its identifier,
  the row \<open>_save_task\<close> writes for it, and every row of the store with
  \<open>enabled = 1\<close> belongs to a task of the registry.
\<close>

definition registry_mirrors_store :: "pylib \<Rightarrow> scheduler \<Rightarrow> bool" where
  "registry_mirrors_store lib s =
     (registry_ok s \<and> distinct (map fst (db s)) \<and>
      (\<forall>kv\<in>set (tasks s). map_of (db s) (fst kv) = Some (row_of lib (snd kv))) \<and>
      (\<forall>kr\<in>set (db s). col_enabled (snd kr) = 1 \<longrightarrow> fst kr \<in> fst ` set (tasks s)))"


text \<open>Every detached task object is stored under its identifier and is disabled.\<close>

definition detached_ok :: "scheduler \<Rightarrow> bool" where
  "detached_ok s = (\<forall>kv\<in>set (detached s). task_id (snd kv) = fst kv \<and> \<not> enabled (snd kv))"

section \<open>Auxiliary facts\<close>

lemma Scheduler_empty: "Scheduler lib now [] = Some empty_scheduler"
  by (simp add: Scheduler_def load_tasks_def empty_scheduler_def)

lemma update_next_run_id [simp]: "task_id (update_next_run lib now t) = task_id t"
  by (simp add: update_next_run_def)

lemma execute_task_obj_id [simp]: "task_id (fst (execute_task_obj lib h td tn t)) = task_id t"
  by (simp add: execute_task_obj_def Let_def split: handler_result.split option.split)

lemma unit_result_id [simp]: "task_id (unit_result lib h clk t) = task_id t"
  by (simp add: unit_result_def)

lemma execute_task_handler [simp]: "task_handler (fst (execute_task lib td tn s t)) = task_handler s"
  by (simp add: execute_task_def Let_def)

lemma execute_task_running [simp]: "running (fst (execute_task lib td tn s t)) = running s"
  by (simp add: execute_task_def Let_def)

lemma execute_task_tasks:
  "tasks (fst (execute_task lib td tn s t)) =
     AList.map_entry (task_id t) (\<lambda>_. fst (execute_task_obj lib (task_handler s) td tn t)) (tasks s)"
  by (simp add: execute_task_def Let_def)

lemma execute_task_snd:
  "snd (execute_task lib td tn s t) = snd (execute_task_obj lib (task_handler s) td tn t)"
  by (simp add: execute_task_def Let_def)

lemma map_entry_as_map:
  "distinct (map fst xs) \<Longrightarrow>
   AList.map_entry k f xs = map (\<lambda>kv. (fst kv, if fst kv = k then f (snd kv) else snd kv)) xs"
proof (induction xs)
  case Nil
  then show ?case by simp
next
  case (Cons x xs)
  obtain a b where x: "x = (a, b)" by (cases x)
  from Cons.prems have nin: "a \<notin> fst ` set xs" and d: "distinct (map fst xs)" by (auto simp: x)
  show ?case
  proof (cases "a = k")
    case True
    with nin have "map (\<lambda>kv. (fst kv, if fst kv = k then f (snd kv) else snd kv)) xs = xs"
      by (intro map_idI) force
    with True show ?thesis by (simp add: x)
  next
    case False
    with Cons.IH [OF d] show ?thesis by (simp add: x)
  qed
qed

lemma run_units_handler [simp]: "task_handler (fst (run_units lib clk s ts)) = task_handler s"
  by (induction ts arbitrary: s) (simp_all add: Let_def)

lemma run_units_running [simp]: "running (fst (run_units lib clk s ts)) = running s"
  by (induction ts arbitrary: s) (simp_all add: Let_def)

lemma run_units_tasks:
  "distinct (map fst (tasks s)) \<Longrightarrow> distinct (map task_id ts) \<Longrightarrow>
   \<forall>t\<in>set ts. (task_id t, t) \<in> set (tasks s) \<Longrightarrow>
   tasks (fst (run_units lib clk s ts)) =
     map (\<lambda>kv. (fst kv, if fst kv \<in> task_id ` set ts
                          then unit_result lib (task_handler s) clk (snd kv) else snd kv)) (tasks s)"
proof (induction ts arbitrary: s)
  case Nil
  then show ?case by simp
next
  case (Cons t ts)
  let ?t' = "unit_result lib (task_handler s) clk t"
  let ?s1 = "fst (execute_task lib (fst (clk (task_id t))) (snd (clk (task_id t))) s t)"
  have s1: "tasks ?s1 = map (\<lambda>kv. (fst kv, if fst kv = task_id t then ?t' else snd kv)) (tasks s)"
    using Cons.prems(1) by (simp add: execute_task_tasks map_entry_as_map unit_result_def)
  have keys: "map fst (tasks ?s1) = map fst (tasks s)"
    by (simp add: s1 comp_def)
  have d1: "distinct (map fst (tasks ?s1))" using Cons.prems(1) keys by simp
  have d2: "distinct (map task_id ts)" using Cons.prems(2) by simp
  have nt: "task_id t \<notin> task_id ` set ts" using Cons.prems(2) by simp
  have mem: "\<forall>u\<in>set ts. (task_id u, u) \<in> set (tasks ?s1)"
  proof
    fix u assume u: "u \<in> set ts"
    with Cons.prems(3) have "(task_id u, u) \<in> set (tasks s)" by simp
    moreover from u nt have "task_id u \<noteq> task_id t" by (metis imageI)
    ultimately show "(task_id u, u) \<in> set (tasks ?s1)" by (force simp: s1)
  qed
  have tin: "(task_id t, t) \<in> set (tasks s)" using Cons.prems(3) by simp
  have val: "\<And>kv. kv \<in> set (tasks s) \<Longrightarrow> fst kv = task_id t \<Longrightarrow> snd kv = t"
  proof -
    fix kv assume "kv \<in> set (tasks s)" "fst kv = task_id t"
    with tin Cons.prems(1) show "snd kv = t"
      by (metis eq_key_imp_eq_value prod.collapse)
  qed
  have "tasks (fst (run_units lib clk s (t # ts))) = tasks (fst (run_units lib clk ?s1 ts))"
    by (simp add: Let_def)
  also have "\<dots> = map (\<lambda>kv. (fst kv, if fst kv \<in> task_id ` set ts
                          then unit_result lib (task_handler s) clk (snd kv) else snd kv)) (tasks ?s1)"
    using Cons.IH [OF d1 d2 mem] by simp
  also have "\<dots> = map (\<lambda>kv. (fst kv, if fst kv \<in> task_id ` set (t # ts)
                          then unit_result lib (task_handler s) clk (snd kv) else snd kv)) (tasks s)"
    unfolding s1 using nt val by (auto simp: comp_def)
  finally show ?case .
qed

lemma run_units_snd:
  "snd (run_units lib clk s ts) =
     map (\<lambda>t. snd (execute_task_obj lib (task_handler s) (fst (clk (task_id t))) (snd (clk (task_id t))) t)) ts"
  by (induction ts arbitrary: s) (simp_all add: Let_def execute_task_snd)

lemma tasks_to_run_ids:
  "registry_ok s \<Longrightarrow> map task_id (map snd (tasks s)) = map fst (tasks s)"
  unfolding map_map by (rule map_cong) (auto simp: registry_ok_def)

lemma check_and_run_tasks_tasks:
  assumes "registry_ok s"
  shows "tasks (fst (check_and_run_tasks lib now clk s)) =
     map (\<lambda>kv. (fst kv, if enabled (snd kv) \<and> next_run (snd kv) \<le> now
                          then unit_result lib (task_handler s) clk (snd kv) else snd kv)) (tasks s)"
proof -
  let ?ts = "tasks_to_run now s"
  from assms have d: "distinct (map fst (tasks s))" and wf: "\<forall>kv\<in>set (tasks s). task_id (snd kv) = fst kv"
    by (auto simp: registry_ok_def)
  have "distinct (map task_id (map snd (tasks s)))"
    unfolding tasks_to_run_ids [OF assms] by (rule d)
  then have d2: "distinct (map task_id ?ts)"
    unfolding tasks_to_run_def by (rule distinct_map_filter)
  have mem: "\<forall>t\<in>set ?ts. (task_id t, t) \<in> set (tasks s)"
    using wf by (force simp: tasks_to_run_def)
  have sel: "\<And>kv. kv \<in> set (tasks s) \<Longrightarrow>
      (fst kv \<in> task_id ` set ?ts) = (enabled (snd kv) \<and> next_run (snd kv) \<le> now)"
  proof -
    fix kv assume kv: "kv \<in> set (tasks s)"
    show "(fst kv \<in> task_id ` set ?ts) = (enabled (snd kv) \<and> next_run (snd kv) \<le> now)"
    proof
      assume "fst kv \<in> task_id ` set ?ts"
      then obtain t where t: "t \<in> set ?ts" "task_id t = fst kv" by auto
      with mem have "(fst kv, t) \<in> set (tasks s)" by force
      with kv d have "snd kv = t" by (metis eq_key_imp_eq_value prod.collapse)
      with t show "enabled (snd kv) \<and> next_run (snd kv) \<le> now" by (simp add: tasks_to_run_def)
    next
      assume "enabled (snd kv) \<and> next_run (snd kv) \<le> now"
      with kv have "snd kv \<in> set ?ts" by (force simp: tasks_to_run_def)
      moreover from wf kv have "task_id (snd kv) = fst kv" by simp
      ultimately show "fst kv \<in> task_id ` set ?ts" by force
    qed
  qed
  show ?thesis
    unfolding check_and_run_tasks_def run_units_tasks [OF d d2 mem]
    using sel by (intro map_cong) auto
qed

lemma map_of_map_values:
  "map_of (map (\<lambda>kv. (fst kv, F kv)) xs) k =
     (case map_of xs k of None \<Rightarrow> None | Some v \<Rightarrow> Some (F (k, v)))"
  by (induction xs) auto

lemma get_task_check_and_run_tasks:
  "registry_ok s \<Longrightarrow>
   get_task (fst (check_and_run_tasks lib now clk s)) k =
     map_option (\<lambda>v. if enabled v \<and> next_run v \<le> now
                      then unit_result lib (task_handler s) clk v else v) (get_task s k)"
  by (simp add: get_task_def check_and_run_tasks_tasks map_of_map_values split: option.split)

lemma get_task_execute_task:
  "get_task s (task_id t) = Some t0 \<Longrightarrow>
   get_task (fst (execute_task lib td tn s t)) (task_id t) =
     Some (fst (execute_task_obj lib (task_handler s) td tn t))"
  by (simp add: get_task_def execute_task_tasks map_of_map_entry)

lemma get_task_id: "registry_ok s \<Longrightarrow> get_task s k = Some t \<Longrightarrow> task_id t = k"
  unfolding registry_ok_def get_task_def by (auto dest!: map_of_SomeD)

lemma check_and_run_tasks_snd:
  "snd (check_and_run_tasks lib now clk s) =
     map (\<lambda>t. snd (execute_task_obj lib (task_handler s) (fst (clk (task_id t))) (snd (clk (task_id t))) t))
       (tasks_to_run now s)"
  by (simp add: check_and_run_tasks_def run_units_snd)

lemma tasks_to_run_get_task:
  "registry_ok s \<Longrightarrow> t \<in> set (tasks_to_run now s) \<Longrightarrow> get_task s (task_id t) = Some t"
  unfolding registry_ok_def get_task_def tasks_to_run_def
  by (force intro!: map_of_is_SomeI)

lemma get_task_add_task:
  "get_task (snd (add_task lib now tid nm st sv pl sid s)) tid =
     Some (ScheduledTask lib now tid nm st sv pl sid True)"
  by (simp add: add_task_def Let_def get_task_def update_conv)

lemma execute_task_obj_status_failed:
  "h x = RaisedException e \<Longrightarrow> x = t\<lparr>status := RUNNING\<rparr> \<Longrightarrow>
   status (fst (execute_task_obj lib (Some h) td tn t)) = FAILED \<and>
   snd (execute_task_obj lib (Some h) td tn t) = None"
  by (simp add: execute_task_obj_def update_next_run_def Let_def)

lemma add_reminder_parsed:
  assumes "parse_time lib now_parse remind_at = Inr p"
    and "iso_roundtrip lib (if p \<le> now then p + timedelta_days 1 else p)"
  shows "\<exists>s' t'. add_reminder lib now_parse now now_init tid sid message remind_at description s
             = Inr (tid, s') \<and>
           get_task s' tid = Some t' \<and> task_id t' = tid \<and> schedule_type t' = ONCE \<and> enabled t' \<and>
           status t' = PENDING \<and> session_id t' = Some sid \<and>
           payload t' = [(''type'', PStr ''reminder''), (''message'', PStr message)] \<and>
           next_run t' = (if p \<le> now then p + timedelta_days 1 else p)"
  using assms
  by (auto simp: add_reminder_def Let_def add_task_def get_task_def update_conv ScheduledTask_def
      calculate_next_run_def iso_roundtrip_def)

lemma ScheduleType_of_value [simp]: "ScheduleType_of (ScheduleType_value st) = Some st"
  by (cases st) (simp_all add: ScheduleType_of_def)

lemma load_row_row_of:
  assumes "codec_ok lib t"
  shows "load_row lib now (row_of lib t) = Some (t\<lparr>status := PENDING\<rparr>)"
proof (cases "last_run t")
  case None
  with assms show ?thesis
    by (cases t) (simp add: load_row_def row_of_def codec_ok_def iso_roundtrip_def ScheduledTask_def)
next
  case (Some l)
  with assms show ?thesis
    by (cases t) (simp add: load_row_def row_of_def codec_ok_def iso_roundtrip_def ScheduledTask_def)
qed

lemma load_rows_append:
  "load_rows lib now (rs @ [r]) reg =
     (case load_rows lib now rs reg of
        None \<Rightarrow> None
      | Some reg' \<Rightarrow>
          (case load_row lib now r of
             None \<Rightarrow> None
           | Some t \<Rightarrow> Some (AList.update (task_id t) t reg')))"
  by (induction rs arbitrary: reg) (simp_all split: option.split)

lemma db_rows_save_task:
  "map snd (save_task lib t tbl) = map snd (AList.delete (task_id t) tbl) @ [row_of lib t]"
  by (simp add: save_task_def)

lemma registry_ok_alt:
  "registry_ok s \<longleftrightarrow>
     distinct (map fst (tasks s)) \<and> (\<forall>k t. get_task s k = Some t \<longrightarrow> task_id t = k)"
proof
  assume l: "registry_ok s"
  then have "\<forall>k t. get_task s k = Some t \<longrightarrow> task_id t = k"
    unfolding registry_ok_def get_task_def by (fastforce dest: map_of_SomeD)
  with l show "distinct (map fst (tasks s)) \<and> (\<forall>k t. get_task s k = Some t \<longrightarrow> task_id t = k)"
    by (simp add: registry_ok_def)
next
  assume r: "distinct (map fst (tasks s)) \<and> (\<forall>k t. get_task s k = Some t \<longrightarrow> task_id t = k)"
  have "\<forall>kv\<in>set (tasks s). task_id (snd kv) = fst kv"
  proof
    fix kv assume "kv \<in> set (tasks s)"
    with r have "get_task s (fst kv) = Some (snd kv)" by (simp add: get_task_def)
    with r show "task_id (snd kv) = fst kv" by blast
  qed
  with r show "registry_ok s" by (simp add: registry_ok_def)
qed

lemma registry_mirrors_store_alt:
  "registry_mirrors_store lib s \<longleftrightarrow>
     distinct (map fst (tasks s)) \<and> distinct (map fst (db s)) \<and>
     (\<forall>k t. get_task s k = Some t \<longrightarrow> task_id t = k \<and> map_of (db s) k = Some (row_of lib t)) \<and>
     (\<forall>k r. map_of (db s) k = Some r \<longrightarrow> col_enabled r = 1 \<longrightarrow> get_task s k \<noteq> None)"
  (is "?L \<longleftrightarrow> ?R")
proof
  assume l: ?L
  then have d1: "distinct (map fst (tasks s))" and d2: "distinct (map fst (db s))"
    by (auto simp: registry_mirrors_store_def registry_ok_def)
  have a: "\<forall>k t. get_task s k = Some t \<longrightarrow> task_id t = k \<and> map_of (db s) k = Some (row_of lib t)"
  proof (intro allI impI)
    fix k t assume "get_task s k = Some t"
    then have "(k, t) \<in> set (tasks s)" by (auto simp: get_task_def dest: map_of_SomeD)
    with l show "task_id t = k \<and> map_of (db s) k = Some (row_of lib t)"
      unfolding registry_mirrors_store_def registry_ok_def by fastforce
  qed
  have b: "\<forall>k r. map_of (db s) k = Some r \<longrightarrow> col_enabled r = 1 \<longrightarrow> get_task s k \<noteq> None"
  proof (intro allI impI)
    fix k r assume "map_of (db s) k = Some r" "col_enabled r = 1"
    then have "(k, r) \<in> set (db s)" by (auto dest: map_of_SomeD)
    moreover from l have "\<forall>kr\<in>set (db s). col_enabled (snd kr) = 1 \<longrightarrow> fst kr \<in> fst ` set (tasks s)"
      by (simp add: registry_mirrors_store_def)
    ultimately have "k \<in> fst ` set (tasks s)"
      using \<open>col_enabled r = 1\<close> by (metis fst_conv snd_conv)
    then show "get_task s k \<noteq> None"
      by (simp add: get_task_def map_of_eq_None_iff)
  qed
  from d1 d2 a b show ?R by blast
next
  assume r: ?R
  then have d1: "distinct (map fst (tasks s))" and d2: "distinct (map fst (db s))" by auto
  have ok: "registry_ok s" using r by (simp add: registry_ok_alt)
  have a: "\<forall>kv\<in>set (tasks s). map_of (db s) (fst kv) = Some (row_of lib (snd kv))"
  proof
    fix kv assume "kv \<in> set (tasks s)"
    with d1 have "get_task s (fst kv) = Some (snd kv)" by (simp add: get_task_def)
    with r show "map_of (db s) (fst kv) = Some (row_of lib (snd kv))" by blast
  qed
  have b: "\<forall>kr\<in>set (db s). col_enabled (snd kr) = 1 \<longrightarrow> fst kr \<in> fst ` set (tasks s)"
  proof (intro ballI impI)
    fix kr assume "kr \<in> set (db s)" "col_enabled (snd kr) = 1"
    with d2 have "map_of (db s) (fst kr) = Some (snd kr)" by simp
    with r \<open>col_enabled (snd kr) = 1\<close> have "get_task s (fst kr) \<noteq> None" by blast
    then show "fst kr \<in> fst ` set (tasks s)"
      by (simp add: get_task_def map_of_eq_None_iff)
  qed
  from ok d2 a b show ?L by (simp add: registry_mirrors_store_def)
qed

lemma map_of_save_task:
  "map_of (save_task lib t tbl) k = (if k = task_id t then Some (row_of lib t) else map_of tbl k)"
  by (simp add: save_task_def map_add_def delete_conv' split: option.split)

lemma distinct_save_task:
  "distinct (map fst tbl) \<Longrightarrow> distinct (map fst (save_task lib t tbl))"
  by (simp add: save_task_def distinct_delete delete_notin_dom)

lemma mirror_add_task:
  assumes "registry_mirrors_store lib s"
  shows "registry_mirrors_store lib (snd (add_task lib now tid nm st sv pl sid s))"
  using assms unfolding registry_mirrors_store_alt
  by (auto simp add: add_task_def Let_def get_task_def update_conv' distinct_update
      distinct_save_task map_of_save_task ScheduledTask_def simp del: map_of_eq_Some_iff)

lemma mirror_execute_task:
  assumes "registry_mirrors_store lib s" and "task_id t \<in> fst ` set (tasks s)"
  shows "registry_mirrors_store lib (fst (execute_task lib td tn s t))"
proof -
  from assms(2) have "map_of (tasks s) (task_id t) \<noteq> None" by (simp add: map_of_eq_None_iff)
  then obtain v where v: "map_of (tasks s) (task_id t) = Some v" by blast
  show ?thesis
    using assms(1) v unfolding registry_mirrors_store_alt
    by (auto simp add: execute_task_def Let_def get_task_def map_of_map_entry distinct_map_entry
        distinct_save_task map_of_save_task simp del: map_of_eq_Some_iff
        split: option.splits if_splits)
qed

lemma keys_execute_task:
  "fst ` set (tasks (fst (execute_task lib td tn s t))) = fst ` set (tasks s)"
  by (simp add: execute_task_tasks dom_map_entry)

lemma mirror_run_units:
  "registry_mirrors_store lib s \<Longrightarrow> task_id ` set ts \<subseteq> fst ` set (tasks s) \<Longrightarrow>
   registry_mirrors_store lib (fst (run_units lib clk s ts))"
proof (induction ts arbitrary: s)
  case Nil
  then show ?case by simp
next
  case (Cons t ts)
  let ?s1 = "fst (execute_task lib (fst (clk (task_id t))) (snd (clk (task_id t))) s t)"
  from Cons.prems have "registry_mirrors_store lib ?s1"
    by (intro mirror_execute_task) auto
  moreover from Cons.prems have "task_id ` set ts \<subseteq> fst ` set (tasks ?s1)"
    by (simp add: keys_execute_task)
  ultimately have "registry_mirrors_store lib (fst (run_units lib clk ?s1 ts))"
    by (rule Cons.IH)
  then show ?case by (simp add: Let_def)
qed

lemma mirror_check_and_run_tasks:
  assumes "registry_mirrors_store lib s"
  shows "registry_mirrors_store lib (fst (check_and_run_tasks lib now clk s))"
proof -
  from assms have ok: "registry_ok s" by (simp add: registry_mirrors_store_def)
  have "task_id ` set (tasks_to_run now s) \<subseteq> fst ` set (tasks s)"
    using ok unfolding registry_ok_def tasks_to_run_def by force
  with assms show ?thesis
    unfolding check_and_run_tasks_def by (rule mirror_run_units)
qed

lemma add_reminder_is_add_task:
  assumes "add_reminder lib now_parse now now_init tid sid message remind_at description s = Inr r"
  shows "\<exists>nm sv. r = add_task lib now_init tid nm ONCE sv
           [(''type'', PStr ''reminder''), (''message'', PStr message)] (Some sid) s"
  using assms by (auto simp: add_reminder_def Let_def split: sum.splits)

lemma mirror_add_reminder:
  assumes "registry_mirrors_store lib s"
    and "add_reminder lib now_parse now now_init tid sid message remind_at description s = Inr r"
  shows "registry_mirrors_store lib (snd r)"
proof -
  from add_reminder_is_add_task [OF assms(2)] obtain nm sv where
    "r = add_task lib now_init tid nm ONCE sv
           [(''type'', PStr ''reminder''), (''message'', PStr message)] (Some sid) s" by blast
  with assms(1) show ?thesis by (simp add: mirror_add_task)
qed

lemma mirror_empty: "registry_mirrors_store lib empty_scheduler"
  by (simp add: registry_mirrors_store_def registry_ok_def empty_scheduler_def)


lemma registry_ok_check_and_run_tasks:
  assumes "registry_ok s"
  shows "registry_ok (fst (check_and_run_tasks lib now clk s))"
  using assms unfolding registry_ok_def check_and_run_tasks_tasks [OF assms]
  by (auto simp: comp_def)


lemma registry_ok_execute_task:
  assumes "registry_ok s"
  shows "registry_ok (fst (execute_task lib td tn s t))"
  using assms unfolding registry_ok_alt
  by (auto simp add: execute_task_tasks get_task_def map_of_map_entry distinct_map_entry
      simp del: map_of_eq_Some_iff split: option.splits if_splits)

lemma execute_task_obj_raised:
  assumes "h (t\<lparr>status := RUNNING\<rparr>) = RaisedException e"
  shows "status (fst (execute_task_obj lib (Some h) td tn t)) = FAILED \<and>
         last_run (fst (execute_task_obj lib (Some h) td tn t)) = last_run t \<and>
         run_count (fst (execute_task_obj lib (Some h) td tn t)) = run_count t \<and>
         snd (execute_task_obj lib (Some h) td tn t) = None"
  using assms by (simp add: execute_task_obj_def update_next_run_def Let_def)

section \<open>The claims\<close>

subsection \<open>C1: a handler that raises\<close>

text \<open>
  The claim C1 says that a dispatch whose handler raises sets \<open>status\<close> to FAILED and
  still updates \<open>last_run\<close> and \<open>run_count\<close>, so that two dispatches with a handler
  that always raises leave \<open>run_count = 2\<close>. In \<open>_execute_task\<close> the two updates
  stand in the \<open>try\<close> block after the call of the handler, and the \<open>except\<close> branch
  sets the status only.

  C1, as amended: for every dispatched task whose handler raises an error (an
  \<open>Exception\<close>), the unit sets \<open>status\<close> to FAILED, leaves \<open>last_run\<close> and
  \<open>run_count\<close> as they were, and raises nothing itself; when the handler raises
  again at a second dispatch of the task, \<open>status\<close> is FAILED both times and
  \<open>run_count\<close> is still what it was before the first.
\<close>

theorem failing_handler_marks_failed:
  assumes "task_handler s = Some h" and "get_task s (task_id t) = Some t"
    and "h (t\<lparr>status := RUNNING\<rparr>) = RaisedException e"
  shows "let r1 = execute_task lib td1 tn1 s t;
             t1 = fst (execute_task_obj lib (Some h) td1 tn1 t)
         in get_task (fst r1) (task_id t) = Some t1 \<and> snd r1 = None \<and>
            status t1 = FAILED \<and> last_run t1 = last_run t \<and> run_count t1 = run_count t \<and>
            (\<forall>e'. h (t1\<lparr>status := RUNNING\<rparr>) = RaisedException e' \<longrightarrow>
               (let r2 = execute_task lib td2 tn2 (fst r1) t1;
                    t2 = fst (execute_task_obj lib (Some h) td2 tn2 t1)
                in get_task (fst r2) (task_id t) = Some t2 \<and> snd r2 = None \<and>
                   status t2 = FAILED \<and> last_run t2 = last_run t \<and> run_count t2 = run_count t))"
proof -
  let ?t1 = "fst (execute_task_obj lib (Some h) td1 tn1 t)"
  let ?s1 = "fst (execute_task lib td1 tn1 s t)"
  let ?t2 = "fst (execute_task_obj lib (Some h) td2 tn2 ?t1)"
  let ?s2 = "fst (execute_task lib td2 tn2 ?s1 ?t1)"
  note first = execute_task_obj_raised [of h t e lib td1 tn1, OF assms(3)]
  have g1: "get_task ?s1 (task_id t) = Some ?t1"
    using get_task_execute_task [OF assms(2), of lib td1 tn1] assms(1) by simp
  have h1: "task_handler ?s1 = Some h" using assms(1) by simp
  have n1: "snd (execute_task lib td1 tn1 s t) = None"
    using first assms(1) by (simp add: execute_task_snd)
  have second: "get_task ?s2 (task_id t) = Some ?t2 \<and> snd (execute_task lib td2 tn2 ?s1 ?t1) = None \<and>
      status ?t2 = FAILED \<and> last_run ?t2 = last_run t \<and> run_count ?t2 = run_count t"
    if r: "h (?t1\<lparr>status := RUNNING\<rparr>) = RaisedException e'" for e'
  proof -
    have g1': "get_task ?s1 (task_id ?t1) = Some ?t1" using g1 by simp
    have "get_task ?s2 (task_id t) = Some ?t2"
      using get_task_execute_task [OF g1', of lib td2 tn2] h1 by simp
    with execute_task_obj_raised [of h ?t1 e' lib td2 tn2, OF r] first h1 show ?thesis
      by (simp add: execute_task_snd)
  qed
  show ?thesis
    unfolding Let_def using g1 n1 first second by blast
qed

text \<open>
  The theorem at a task with the interval of one minute, created in an empty scheduler
  whose handler always raises.
\<close>

theorem failing_handler_marks_failed_witness:
  "map_option (\<lambda>t. (status t, last_run t, run_count t))
     (get_task
        (fst (execute_task stdlib 63906922931000000 63906922931000000
           (fst (execute_task stdlib 63906922866000000 63906922866000000
              (snd (add_task stdlib 63906922800000000 ''id1'' ''job'' INTERVAL ''1'' [] None
                 (set_task_handler (\<lambda>_. RaisedException ''boom'') empty_scheduler)))
              (ScheduledTask stdlib 63906922800000000 ''id1'' ''job'' INTERVAL ''1'' [] None True)))
           (fst (execute_task_obj stdlib (Some (\<lambda>_. RaisedException ''boom''))
              63906922866000000 63906922866000000
              (ScheduledTask stdlib 63906922800000000 ''id1'' ''job'' INTERVAL ''1'' [] None True)))))
        ''id1'')
   = Some (FAILED, None, 0)"
proof -
  let ?h = "\<lambda>_::task. RaisedException ''boom''"
  let ?t = "ScheduledTask stdlib 63906922800000000 ''id1'' ''job'' INTERVAL ''1'' [] None True"
  let ?s = "snd (add_task stdlib 63906922800000000 ''id1'' ''job'' INTERVAL ''1'' [] None
               (set_task_handler ?h empty_scheduler))"
  have id: "task_id ?t = ''id1''" by (simp add: ScheduledTask_def)
  have h: "task_handler ?s = Some ?h"
    by (simp add: add_task_def Let_def empty_scheduler_def set_task_handler_def)
  have r: "?h (?t\<lparr>status := RUNNING\<rparr>) = RaisedException ''boom''" by simp
  have g: "get_task ?s (task_id ?t) = Some ?t"
    by (simp add: add_task_def Let_def empty_scheduler_def get_task_def ScheduledTask_def
        set_task_handler_def)
  from failing_handler_marks_failed [of ?s ?h ?t "''boom''" stdlib 63906922866000000
      63906922866000000 63906922931000000 63906922931000000, OF h g r]
  show ?thesis by (simp add: Let_def id) (simp add: ScheduledTask_def)
qed

text \<open>
  Scenario D of the specification, through the loop: the handler always raises, a task
  with the interval of one minute is created at 2026-02-16 11:00:00, and the loop wakes
  up 65 and 130 seconds later. The task is dispatched both times (its \<open>next_run\<close> is one
  minute after the second unit's reading of the clock, 11:02:11), its status is FAILED,
  and its \<open>run_count\<close> is 0, not 2, with no \<open>last_run\<close>.
\<close>

theorem failing_handler_run_count_counterexample:
  "map_option (\<lambda>t. (status t, run_count t, last_run t, next_run t))
     (get_task (run_ops stdlib empty_scheduler
        [SetTaskHandler (\<lambda>_. RaisedException ''boom''),
         AddTask 63906922800000000 ''id1'' ''job'' INTERVAL ''1'' [] None,
         StartLoop,
         WakeUp 63906922865000000 (\<lambda>_. (63906922866000000, 63906922866000000)),
         WakeUp 63906922930000000 (\<lambda>_. (63906922931000000, 63906922931000000))]) ''id1'')
   = Some (FAILED, 0, None, 63906922991000000)"
  by code_simp

subsection \<open>C6: the schedule calculator\<close>

text \<open>
  C6: for the current time \<open>now\<close>, \<open>_calculate_next_run\<close> returns, for ONCE, the
  expression parsed as an absolute timestamp, and \<open>now\<close> plus one hour if it does not
  parse; for INTERVAL, \<open>now\<close> plus the expression parsed as a number of minutes, and
  \<open>now\<close> plus one hour if it does not parse; for CRON, \<open>now\<close> plus one hour whatever
  the expression.
\<close>

theorem calculate_next_run_clauses:
  "(fromisoformat lib e1 = Some d \<longrightarrow> calculate_next_run lib now ONCE e1 = d) \<and>
   (fromisoformat lib e2 = None \<longrightarrow> calculate_next_run lib now ONCE e2 = now + timedelta_hours 1) \<and>
   (py_int lib e3 = Some m \<longrightarrow> calculate_next_run lib now INTERVAL e3 = now + timedelta_minutes m) \<and>
   (py_int lib e4 = None \<longrightarrow> calculate_next_run lib now INTERVAL e4 = now + timedelta_hours 1) \<and>
   calculate_next_run lib now CRON e5 = now + timedelta_hours 1"
  by (simp add: calculate_next_run_def)

text \<open>
  At 2026-02-16 11:00:00: a timestamp, scenario C of the specification (\<open>not-a-date\<close>),
  ninety minutes, the text \<open>1h\<close> of the repository's tests, and a cron line.
\<close>

theorem calculate_next_run_clauses_witness:
  "calculate_next_run stdlib 63906922800000000 ONCE ''2026-02-16 12:30'' = 63906928200000000 \<and>
   calculate_next_run stdlib 63906922800000000 ONCE ''not-a-date'' = 63906926400000000 \<and>
   calculate_next_run stdlib 63906922800000000 INTERVAL ''90'' = 63906928200000000 \<and>
   calculate_next_run stdlib 63906922800000000 INTERVAL ''1h'' = 63906926400000000 \<and>
   calculate_next_run stdlib 63906922800000000 CRON ''*/5 * * * *'' = 63906926400000000"
proof -
  have a: "fromisoformat stdlib ''2026-02-16 12:30'' = Some 63906928200000000" by code_simp
  have b: "fromisoformat stdlib ''not-a-date'' = None" by code_simp
  have c: "py_int stdlib ''90'' = Some 90" by code_simp
  have d: "py_int stdlib ''1h'' = None" by code_simp
  show ?thesis
    using a b c d
      calculate_next_run_clauses [of stdlib "''2026-02-16 12:30''" 63906928200000000
        63906922800000000 "''not-a-date''" "''90''" 90 "''1h''" "''*/5 * * * *''"]
    by (simp add: timedelta_hours_def timedelta_minutes_def)
qed

subsection \<open>C9: no handler registered\<close>

text \<open>
  C9: when no handler is registered (\<open>_task_handler\<close> is \<open>None\<close>), dispatching a task
  records a success: \<open>status\<close> is COMPLETED, \<open>last_run\<close> is set, \<open>run_count\<close> is
  incremented, exactly as if a handler had run and returned.
\<close>

theorem no_handler_completes:
  assumes "task_handler s = None" and "get_task s (task_id t) = Some t"
  shows "\<exists>t'. get_task (fst (execute_task lib td tn s t)) (task_id t) = Some t' \<and>
           status t' = COMPLETED \<and> last_run t' = Some td \<and> run_count t' = run_count t + 1 \<and>
           snd (execute_task lib td tn s t) = None \<and>
           (t', None) = execute_task_obj lib (Some (\<lambda>_. Returned)) td tn t"
  using assms get_task_execute_task [OF assms(2), of lib td tn]
  by (simp add: execute_task_snd execute_task_obj_def update_next_run_def Let_def)

theorem no_handler_completes_witness:
  "map_option (\<lambda>t. (status t, last_run t, run_count t))
     (get_task (fst (execute_task stdlib 63906922866000000 63906922867000000
        (snd (add_task stdlib 63906922800000000 ''id1'' ''job'' INTERVAL ''1'' [] None empty_scheduler))
        (ScheduledTask stdlib 63906922800000000 ''id1'' ''job'' INTERVAL ''1'' [] None True))) ''id1'')
   = Some (COMPLETED, Some 63906922866000000, 1)"
proof -
  let ?t = "ScheduledTask stdlib 63906922800000000 ''id1'' ''job'' INTERVAL ''1'' [] None True"
  let ?s = "snd (add_task stdlib 63906922800000000 ''id1'' ''job'' INTERVAL ''1'' [] None empty_scheduler)"
  have id: "task_id ?t = ''id1''" by (simp add: ScheduledTask_def)
  have h: "task_handler ?s = None" by (simp add: add_task_def Let_def empty_scheduler_def)
  have g: "get_task ?s (task_id ?t) = Some ?t"
    by (simp add: add_task_def Let_def empty_scheduler_def get_task_def ScheduledTask_def)
  from no_handler_completes [OF h g, of stdlib 63906922866000000 63906922867000000]
  show ?thesis by (auto simp: id ScheduledTask_def)
qed

subsection \<open>C7: a reminder at an hour and a minute\<close>

text \<open>
  C7: \<open>add_reminder\<close> with a \<open>remind_at\<close> of the form \<open>HH:MM\<close> (a text that
  \<open>fromisoformat\<close> rejects and \<open>strptime\<close> reads as an hour and a minute) creates a
  ONCE task whose \<open>next_run\<close> is today at that time if that instant is later than
  \<open>now\<close>, and that time of the next calendar day otherwise. Today is the date of the
  clock \<open>parse_time\<close> reads.
\<close>

theorem add_reminder_hh_mm:
  assumes "fromisoformat lib remind_at = None" and "strptime_HM lib remind_at = Some hm"
    and "iso_roundtrip lib (combine (date_of now_parse) hm)"
    and "iso_roundtrip lib (combine (date_of now_parse + 1) hm)"
  shows "\<exists>s' t'. add_reminder lib now_parse now now_init tid sid message remind_at description s
             = Inr (tid, s') \<and>
           get_task s' tid = Some t' \<and> schedule_type t' = ONCE \<and> enabled t' \<and>
           payload t' = [(''type'', PStr ''reminder''), (''message'', PStr message)] \<and>
           next_run t' = (if now < combine (date_of now_parse) hm
                          then combine (date_of now_parse) hm
                          else combine (date_of now_parse + 1) hm)"
proof -
  let ?p = "combine (date_of now_parse) hm"
  have p: "parse_time lib now_parse remind_at = Inr ?p"
    using assms(1,2) by (simp add: parse_time_def)
  have next_day: "combine (date_of now_parse + 1) hm = ?p + timedelta_days 1"
    by (simp add: combine_def timedelta_days_def algebra_simps)
  have rt: "iso_roundtrip lib (if ?p \<le> now then ?p + timedelta_days 1 else ?p)"
    using assms(3,4) next_day by simp
  from add_reminder_parsed [OF p rt, of now_init tid sid message description s]
  show ?thesis using next_day by (auto simp: not_less)
qed

text \<open>
  Scenario B of the specification: \<open>10:00\<close> asked at 11:00:00 on 2026-02-16 gives
  10:00 on 2026-02-17; asked at 09:00:00 it gives 10:00 on the same day.
\<close>

theorem add_reminder_hh_mm_witness:
  "(case add_reminder stdlib 63906922800000000 63906922800000000 63906922800000000
           ''id1'' ''session'' ''Check mail'' ''10:00'' None empty_scheduler of
      Inl e \<Rightarrow> None
    | Inr r \<Rightarrow> map_option (\<lambda>t. (schedule_type t, next_run t, isoformat stdlib (next_run t)))
                 (get_task (snd r) (fst r)))
   = Some (ONCE, 63907005600000000, ''2026-02-17T10:00:00'') \<and>
   (case add_reminder stdlib 63906915600000000 63906915600000000 63906915600000000
           ''id1'' ''session'' ''Check mail'' ''10:00'' None empty_scheduler of
      Inl e \<Rightarrow> None
    | Inr r \<Rightarrow> map_option (\<lambda>t. (schedule_type t, next_run t, isoformat stdlib (next_run t)))
                 (get_task (snd r) (fst r)))
   = Some (ONCE, 63906919200000000, ''2026-02-16T10:00:00'')"
proof -
  have a: "fromisoformat stdlib ''10:00'' = None" by code_simp
  have b: "strptime_HM stdlib ''10:00'' = Some (10, 0)" by code_simp
  have d1: "combine (date_of 63906922800000000) (10, 0) = 63906919200000000"
    and d2: "combine (date_of 63906922800000000 + 1) (10, 0) = 63907005600000000"
    and d3: "combine (date_of 63906915600000000) (10, 0) = 63906919200000000"
    and d4: "combine (date_of 63906915600000000 + 1) (10, 0) = 63907005600000000"
    by (simp_all add: combine_def date_of_def timedelta_days_def timedelta_hours_def
        timedelta_minutes_def)
  have r1: "iso_roundtrip stdlib 63906919200000000" by code_simp
  have r2: "iso_roundtrip stdlib 63907005600000000" by code_simp
  have i1: "isoformat stdlib 63907005600000000 = ''2026-02-17T10:00:00''" by code_simp
  have i2: "isoformat stdlib 63906919200000000 = ''2026-02-16T10:00:00''" by code_simp
  from add_reminder_hh_mm [OF a b, of 63906922800000000 63906922800000000 63906922800000000
      "''id1''" "''session''" "''Check mail''" None empty_scheduler] r1 r2
  have c1: "(case add_reminder stdlib 63906922800000000 63906922800000000 63906922800000000
           ''id1'' ''session'' ''Check mail'' ''10:00'' None empty_scheduler of
      Inl e \<Rightarrow> None
    | Inr r \<Rightarrow> map_option (\<lambda>t. (schedule_type t, next_run t, isoformat stdlib (next_run t)))
                 (get_task (snd r) (fst r)))
   = Some (ONCE, 63907005600000000, ''2026-02-17T10:00:00'')"
    by (auto simp: d1 d2 i1)
  from add_reminder_hh_mm [OF a b, of 63906915600000000 63906915600000000 63906915600000000
      "''id1''" "''session''" "''Check mail''" None empty_scheduler] r1 r2
  have c2: "(case add_reminder stdlib 63906915600000000 63906915600000000 63906915600000000
           ''id1'' ''session'' ''Check mail'' ''10:00'' None empty_scheduler of
      Inl e \<Rightarrow> None
    | Inr r \<Rightarrow> map_option (\<lambda>t. (schedule_type t, next_run t, isoformat stdlib (next_run t)))
                 (get_task (snd r) (fst r)))
   = Some (ONCE, 63906919200000000, ''2026-02-16T10:00:00'')"
    by (auto simp: d3 d4 i2)
  from c1 c2 show ?thesis by (rule conjI)
qed

subsection \<open>C8: errors of the handler stay in the unit\<close>

text \<open>
  C8: an error the handler raises (an \<open>Exception\<close>) is caught in the unit: for every
  task \<open>u\<close> the unit raises nothing and records FAILED; in a wake-up of the loop every
  due task gets its unit, no unit raises, every due task ends FAILED, and the loop's
  flag \<open>_running\<close> is as before, so the loop goes on.
\<close>

theorem handler_errors_are_contained:
  assumes "registry_ok s" and "task_handler s = Some h" and "\<forall>x. \<exists>e. h x = RaisedException e"
  shows "snd (execute_task lib td tn s u) = None \<and>
         status (fst (execute_task_obj lib (task_handler s) td tn u)) = FAILED \<and>
         snd (check_and_run_tasks lib now clk s) = replicate (length (tasks_to_run now s)) None \<and>
         (\<forall>t\<in>set (tasks_to_run now s).
            \<exists>t'. get_task (fst (check_and_run_tasks lib now clk s)) (task_id t) = Some t' \<and>
                 status t' = FAILED) \<and>
         running (fst (check_and_run_tasks lib now clk s)) = running s"
proof -
  have obj: "\<And>t td tn. status (fst (execute_task_obj lib (Some h) td tn t)) = FAILED \<and>
      snd (execute_task_obj lib (Some h) td tn t) = None"
  proof -
    fix t td tn
    from assms(3) obtain e where "h (t\<lparr>status := RUNNING\<rparr>) = RaisedException e" by blast
    then show "status (fst (execute_task_obj lib (Some h) td tn t)) = FAILED \<and>
      snd (execute_task_obj lib (Some h) td tn t) = None"
      by (rule execute_task_obj_status_failed) simp
  qed
  have units: "snd (check_and_run_tasks lib now clk s) = replicate (length (tasks_to_run now s)) None"
    by (simp add: check_and_run_tasks_snd assms(2) obj map_replicate_const)
  have failed: "\<forall>t\<in>set (tasks_to_run now s).
      \<exists>t'. get_task (fst (check_and_run_tasks lib now clk s)) (task_id t) = Some t' \<and> status t' = FAILED"
  proof
    fix t assume t: "t \<in> set (tasks_to_run now s)"
    then have due: "enabled t \<and> next_run t \<le> now" by (simp add: tasks_to_run_def)
    from tasks_to_run_get_task [OF assms(1) t] have "get_task s (task_id t) = Some t" .
    then have "get_task (fst (check_and_run_tasks lib now clk s)) (task_id t) =
        Some (unit_result lib (Some h) clk t)"
      using due assms(2) by (simp add: get_task_check_and_run_tasks [OF assms(1)])
    moreover have "status (unit_result lib (Some h) clk t) = FAILED"
      by (simp add: unit_result_def obj)
    ultimately show "\<exists>t'. get_task (fst (check_and_run_tasks lib now clk s)) (task_id t) = Some t' \<and>
        status t' = FAILED" by blast
  qed
  show ?thesis
    using units failed obj [of td tn u] assms(2)
    by (simp add: execute_task_snd check_and_run_tasks_def)
qed

text \<open>
  Four tasks and a handler that always raises; at 11:01:05 the tasks \<open>id1\<close> and
  \<open>id4\<close> are due.
\<close>

theorem handler_errors_are_contained_witness:
  "(let s = run_ops stdlib empty_scheduler
        [SetTaskHandler (\<lambda>_. RaisedException ''boom''),
         AddTask 63906922800000000 ''id1'' ''job'' INTERVAL ''1'' [] None,
         AddTask 63906922800000000 ''id2'' ''later'' INTERVAL ''30'' [] None,
         AddTask 63906922800000000 ''id3'' ''hourly'' CRON ''0 * * * *'' [] None,
         AddTask 63906922800000000 ''id4'' ''once'' ONCE ''2026-02-16T11:01:00'' [] None,
         StartLoop];
        r = check_and_run_tasks stdlib 63906922865000000 (\<lambda>_. (63906922866000000, 63906922866000000)) s
    in (map task_id (tasks_to_run 63906922865000000 s), snd r, running (fst r),
        map (\<lambda>kv. (fst kv, status (snd kv))) (tasks (fst r))))
   = ([''id1'', ''id4''], [None, None], True,
      [(''id1'', FAILED), (''id2'', PENDING), (''id3'', PENDING), (''id4'', FAILED)])"
proof -
  let ?h = "\<lambda>_::task. RaisedException ''boom''"
  let ?s = "run_ops stdlib empty_scheduler
        [SetTaskHandler ?h,
         AddTask 63906922800000000 ''id1'' ''job'' INTERVAL ''1'' [] None,
         AddTask 63906922800000000 ''id2'' ''later'' INTERVAL ''30'' [] None,
         AddTask 63906922800000000 ''id3'' ''hourly'' CRON ''0 * * * *'' [] None,
         AddTask 63906922800000000 ''id4'' ''once'' ONCE ''2026-02-16T11:01:00'' [] None,
         StartLoop]"
  let ?clk = "\<lambda>_::string. (63906922866000000::int, 63906922866000000::int)"
  have ok: "registry_ok ?s" by code_simp
  have h: "task_handler ?s = Some ?h"
    by (simp add: run_ops_def add_task_def set_task_handler_def Let_def)
  have r: "\<forall>x. \<exists>e. ?h x = RaisedException e" by simp
  have sel: "map task_id (tasks_to_run 63906922865000000 ?s) = [''id1'', ''id4'']" by code_simp
  have sts: "map (\<lambda>kv. (fst kv, status (snd kv)))
      (tasks (fst (check_and_run_tasks stdlib 63906922865000000 ?clk ?s))) =
      [(''id1'', FAILED), (''id2'', PENDING), (''id3'', PENDING), (''id4'', FAILED)]" by code_simp
  have len: "length (tasks_to_run 63906922865000000 ?s) = 2"
    using arg_cong [OF sel, of length] by simp
  from handler_errors_are_contained [OF ok h r, of stdlib 63906922866000000
      63906922866000000
      "ScheduledTask stdlib 63906922800000000 ''id1'' ''job'' INTERVAL ''1'' [] None True"
      63906922865000000 ?clk]
  have "snd (check_and_run_tasks stdlib 63906922865000000 ?clk ?s) = [None, None]"
    and "running (fst (check_and_run_tasks stdlib 63906922865000000 ?clk ?s)) = running ?s"
    by (simp_all add: len numeral_2_eq_2)
  moreover have "running ?s = True" by (simp add: run_ops_def add_task_def set_task_handler_def Let_def)
  ultimately show ?thesis using sel sts by (simp add: Let_def)
qed

subsection \<open>C10: the rollover of a reminder applies to every form\<close>

text \<open>
  C10: \<open>add_reminder\<close> adds one day, once, to every parsed \<open>remind_at\<close> that is not
  later than \<open>now\<close>, whatever its form: a full timestamp \<open>d\<close> is parsed as itself, so
  for \<open>d \<le> now\<close> the task's \<open>next_run\<close> is \<open>d\<close> plus one day, which is still in
  the past when \<open>d\<close> is more than one day before \<open>now\<close>.
\<close>

theorem add_reminder_rollover:
  assumes "parse_time lib now_parse remind_at = Inr p" and "p \<le> now"
    and "iso_roundtrip lib (p + timedelta_days 1)"
  shows "(\<exists>s' t'. add_reminder lib now_parse now now_init tid sid message remind_at description s
              = Inr (tid, s') \<and>
            get_task s' tid = Some t' \<and> schedule_type t' = ONCE \<and> enabled t' \<and>
            next_run t' = p + timedelta_days 1 \<and>
            (p + timedelta_days 1 < now \<longrightarrow> next_run t' < now)) \<and>
         (\<forall>d. fromisoformat lib remind_at = Some d \<longrightarrow> p = d)"
proof -
  have rt: "iso_roundtrip lib (if p \<le> now then p + timedelta_days 1 else p)"
    using assms(2,3) by simp
  from add_reminder_parsed [OF assms(1) rt, of now_init tid sid message description s]
  have "\<exists>s' t'. add_reminder lib now_parse now now_init tid sid message remind_at description s
              = Inr (tid, s') \<and>
            get_task s' tid = Some t' \<and> schedule_type t' = ONCE \<and> enabled t' \<and>
            next_run t' = p + timedelta_days 1 \<and>
            (p + timedelta_days 1 < now \<longrightarrow> next_run t' < now)"
    using assms(2) by auto
  moreover have "\<forall>d. fromisoformat lib remind_at = Some d \<longrightarrow> p = d"
    using assms(1) by (auto simp: parse_time_def)
  ultimately show ?thesis by (rule conjI)
qed

text \<open>
  The timestamp 2026-02-10 09:00 asked at 11:00:00 on 2026-02-16 gives a task due on
  2026-02-11 at 09:00, five days in the past.
\<close>

theorem add_reminder_rollover_witness:
  "(case add_reminder stdlib 63906922800000000 63906922800000000 63906922800000000
           ''id1'' ''session'' ''Check mail'' ''2026-02-10 09:00'' None empty_scheduler of
      Inl e \<Rightarrow> None
    | Inr r \<Rightarrow> map_option (\<lambda>t. (next_run t, isoformat stdlib (next_run t),
                                    next_run t < 63906922800000000))
                 (get_task (snd r) (fst r)))
   = Some (63906483600000000, ''2026-02-11T09:00:00'', True)"
proof -
  have a: "fromisoformat stdlib ''2026-02-10 09:00'' = Some 63906397200000000" by code_simp
  have p: "parse_time stdlib 63906922800000000 ''2026-02-10 09:00'' = Inr 63906397200000000"
    by (simp add: parse_time_def a)
  have le: "(63906397200000000::int) \<le> 63906922800000000" by simp
  have d: "63906397200000000 + timedelta_days 1 = 63906483600000000"
    by (simp add: timedelta_days_def)
  have rt: "iso_roundtrip stdlib (63906397200000000 + timedelta_days 1)"
    unfolding d by code_simp
  have i: "isoformat stdlib 63906483600000000 = ''2026-02-11T09:00:00''" by code_simp
  from add_reminder_rollover [OF p le rt, of 63906922800000000 "''id1''" "''session''"
      "''Check mail''" None empty_scheduler]
  show ?thesis by (auto simp: d i)
qed

subsection \<open>C3: saving and reloading a task\<close>

text \<open>
  The claim C3 says that saving a task and reloading it from the store reproduces all of
  its fields, \<open>status\<close> and \<open>enabled\<close> among them. The table has no column for
  \<open>status\<close>, so a reloaded task is PENDING; and \<open>_load_tasks\<close> selects the rows with
  \<open>enabled = 1\<close>, so a disabled task is not reloaded at all.

  C3, as amended: for every task record whose payload survives its JSON text and whose
  timestamps survive their ISO-8601 texts, the row \<open>_save_task\<close> writes is read back
  with identical \<open>id\<close>, \<open>name\<close>, \<open>scheduleKind\<close>, \<open>scheduleExpression\<close>,
  \<open>payload\<close>, \<open>sessionId\<close>, \<open>enabled\<close>, \<open>nextRun\<close>, \<open>lastRun\<close> and
  \<open>runCount\<close>, and with \<open>status = Pending\<close>; a scheduler started on the store after
  the save holds that task when the task is enabled (in an empty store, and in any store
  that loads), and does not hold it when it is disabled.
\<close>

theorem save_then_reload:
  assumes "codec_ok lib t"
  shows "load_row lib now (row_of lib t) = Some (t\<lparr>status := PENDING\<rparr>) \<and>
         (enabled t \<longrightarrow>
            Scheduler lib now (save_task lib t []) =
              Some (empty_scheduler\<lparr>tasks := [(task_id t, t\<lparr>status := PENDING\<rparr>)],
                                     db := save_task lib t []\<rparr>)) \<and>
         (enabled t \<longrightarrow>
            (\<forall>s'. Scheduler lib now (save_task lib t tbl) = Some s' \<longrightarrow>
                  get_task s' (task_id t) = Some (t\<lparr>status := PENDING\<rparr>))) \<and>
         (\<not> enabled t \<longrightarrow>
            Scheduler lib now (save_task lib t []) = Some (empty_scheduler\<lparr>db := save_task lib t []\<rparr>))"
proof -
  note row = load_row_row_of [OF assms, of now]
  have en: "col_enabled (row_of lib t) = 1 \<longleftrightarrow> enabled t" by (simp add: row_of_def)
  have one: "enabled t \<Longrightarrow> Scheduler lib now (save_task lib t []) =
      Some (empty_scheduler\<lparr>tasks := [(task_id t, t\<lparr>status := PENDING\<rparr>)], db := save_task lib t []\<rparr>)"
    by (simp add: Scheduler_def load_tasks_def save_task_def en row empty_scheduler_def)
  have none: "\<not> enabled t \<Longrightarrow> Scheduler lib now (save_task lib t []) =
      Some (empty_scheduler\<lparr>db := save_task lib t []\<rparr>)"
    by (simp add: Scheduler_def load_tasks_def save_task_def en empty_scheduler_def)
  have any: "enabled t \<Longrightarrow> Scheduler lib now (save_task lib t tbl) = Some s' \<Longrightarrow>
      get_task s' (task_id t) = Some (t\<lparr>status := PENDING\<rparr>)" for s'
  proof -
    assume e: "enabled t" and s': "Scheduler lib now (save_task lib t tbl) = Some s'"
    let ?rs = "filter (\<lambda>r. col_enabled r = 1) (map snd (AList.delete (task_id t) tbl))"
    from s' e obtain reg where reg: "load_rows lib now (?rs @ [row_of lib t]) [] = Some reg"
      and tasks: "tasks s' = reg"
      by (auto simp: Scheduler_def load_tasks_def db_rows_save_task en)
    from reg obtain reg' where "reg = AList.update (task_id t) (t\<lparr>status := PENDING\<rparr>) reg'"
      by (auto simp: load_rows_append row split: option.splits)
    with tasks show ?thesis by (simp add: get_task_def update_conv')
  qed
  from row one none any show ?thesis by blast
qed

text \<open>
  A task of the repository's tests after one successful dispatch: it has a
  \<open>last_run\<close>, \<open>run_count = 1\<close> and a payload of two entries.
\<close>

theorem save_then_reload_witness:
  "(let t = fst (execute_task_obj stdlib None 63906922866000000 63906922867000000
             (ScheduledTask stdlib 63906922800000000 ''id1'' ''Test Task'' INTERVAL ''60''
                [(''type'', PStr ''message''), (''text'', PStr ''Hello'')] (Some ''user123'') True))
    in Scheduler stdlib 63906923000000000 (save_task stdlib t []) =
         Some (empty_scheduler\<lparr>tasks := [(''id1'', t\<lparr>status := PENDING\<rparr>)],
                                db := save_task stdlib t []\<rparr>))"
proof -
  let ?t = "fst (execute_task_obj stdlib None 63906922866000000 63906922867000000
             (ScheduledTask stdlib 63906922800000000 ''id1'' ''Test Task'' INTERVAL ''60''
                [(''type'', PStr ''message''), (''text'', PStr ''Hello'')] (Some ''user123'') True))"
  have c: "codec_ok stdlib ?t" by code_simp
  have e: "enabled ?t"
    by (simp add: execute_task_obj_def update_next_run_def ScheduledTask_def Let_def)
  have i: "task_id ?t = ''id1''" by (simp add: ScheduledTask_def)
  from save_then_reload [OF c, of 63906923000000000] e i show ?thesis
    by (simp add: Let_def)
qed

text \<open>
  The same task has the status COMPLETED when it is saved and PENDING when it is
  reloaded; a ONCE task after its dispatch is disabled and is not reloaded.
\<close>

theorem save_then_reload_counterexample:
  "(let t = fst (execute_task_obj stdlib None 63906922866000000 63906922867000000
             (ScheduledTask stdlib 63906922800000000 ''id1'' ''Test Task'' INTERVAL ''60''
                [(''type'', PStr ''message''), (''text'', PStr ''Hello'')] (Some ''user123'') True))
    in (status t,
        map_option (\<lambda>s'. map_option status (get_task s' ''id1''))
          (Scheduler stdlib 63906923000000000 (save_task stdlib t []))))
   = (COMPLETED, Some (Some PENDING)) \<and>
   (let t = fst (execute_task_obj stdlib None 63906922866000000 63906922867000000
             (ScheduledTask stdlib 63906922800000000 ''id2'' ''Reminder'' ONCE ''2026-02-16T11:01:00''
                [(''type'', PStr ''reminder''), (''message'', PStr ''Check mail'')] (Some ''user123'') True))
    in (enabled t,
        map_option (\<lambda>s'. map_option status (get_task s' ''id2''))
          (Scheduler stdlib 63906923000000000 (save_task stdlib t []))))
   = (False, Some None)"
  by code_simp

section \<open>Facts about the units as asyncio runs them\<close>

subsection \<open>The registry and the store\<close>

lemma row_of_status [simp]: "row_of lib (t\<lparr>status := x\<rparr>) = row_of lib t"
  by (simp add: row_of_def)

lemma finish_task_obj_id [simp]: "task_id (fst (finish_task_obj lib outcome td tn t)) = task_id t"
  by (simp add: finish_task_obj_def Let_def split: handler_result.split)



lemma execute_task_obj_segments:
  "execute_task_obj lib h td tn t =
     finish_task_obj lib (case h of None \<Rightarrow> Returned | Some f \<Rightarrow> f (t\<lparr>status := RUNNING\<rparr>)) td tn
       (t\<lparr>status := RUNNING\<rparr>)"
  by (simp add: execute_task_obj_def finish_task_obj_def Let_def)



lemma task_object_registry: "get_task s k = Some t \<Longrightarrow> task_object s k = Some t"
  by (simp add: task_object_def get_task_def)

lemma task_object_detached:
  "get_task s k = None \<Longrightarrow> task_object s k = map_of (detached s) k"
  by (simp add: task_object_def get_task_def)










lemma detached_object_facts:
  assumes "detached_ok s" and "map_of (detached s) k = Some t0"
  shows "task_id t0 = k \<and> \<not> enabled t0"
proof -
  from assms(2) have "(k, t0) \<in> set (detached s)" by (rule map_of_SomeD)
  with assms(1) show ?thesis by (auto simp: detached_ok_def)
qed





lemma detached_add_task [simp]:
  "detached (snd (add_task lib now tid nm st sv pl sid s)) = detached s"
  by (simp add: add_task_def Let_def)











subsection \<open>Retired tasks\<close>









lemma put_task_object_keys [simp]:
  "fst ` set (tasks (put_task_object k t s)) = fst ` set (tasks s)"
  "fst ` set (detached (put_task_object k t s)) = fst ` set (detached s)"
  "db (put_task_object k t s) = db s"
  by (simp_all add: put_task_object_def dom_map_entry)

lemma id_in_use_put_task_object [simp]:
  "id_in_use (put_task_object k t s) k' = id_in_use s k'"
  by (simp add: id_in_use_def put_task_object_def dom_map_entry)

lemma task_object_id:
  assumes "registry_ok s" and "detached_ok s" and "task_object s k = Some t"
  shows "task_id t = k"
proof (cases "get_task s k")
  case None
  with assms(3) have "map_of (detached s) k = Some t" by (simp add: task_object_detached)
  from detached_object_facts [OF assms(2) this] show ?thesis by simp
next
  case (Some t0)
  with assms(3) have "t0 = t" by (simp add: task_object_registry)
  with get_task_id [OF assms(1) Some] show ?thesis by simp
qed




lemma put_task_object_units [simp]:
  "created (put_task_object k t s) = created s"
  "awaiting (put_task_object k t s) = awaiting s"
  by (simp_all add: put_task_object_def)

lemma add_task_io_units [simp]:
  "created (snd (add_task_io lib now tid nm st sv pl sid w s)) = created s"
  "awaiting (snd (add_task_io lib now tid nm st sv pl sid w s)) = awaiting s"
  by (simp_all add: add_task_io_def add_task_def Let_def split: write_outcome.split)

lemma add_reminder_io_units [simp]:
  "created (snd (add_reminder_io lib np now ni tid sid msg at d w s)) = created s"
  "awaiting (snd (add_reminder_io lib np now ni tid sid msg at d w s)) = awaiting s"
  by (simp_all add: add_reminder_io_def Let_def split: sum.split)

lemma remove_task_io_units [simp]:
  "created (snd (remove_task_io tid w s)) = created s"
  "awaiting (snd (remove_task_io tid w s)) = awaiting s"
  by (simp_all add: remove_task_io_def remove_task_def split: write_outcome.split option.split)

lemma finish_unit_created [simp]: "created (fst (finish_unit lib k td tn w s)) = created s"
  by (simp add: finish_unit_def Let_def split: option.split write_outcome.split)






subsection \<open>The next run after a unit\<close>



lemma get_task_create_units [simp]: "get_task (create_units now s) k = get_task s k"
  by (simp add: create_units_def get_task_def)


section \<open>The claims on the units as asyncio runs them\<close>

subsection \<open>C2: the registry and the store\<close>




subsection \<open>C4: the retirement of a ONCE task\<close>



text \<open>
  A ONCE task for 11:01:00 with a handler that takes fifteen seconds. The loop wakes up
  at 11:01:05 and the unit it creates starts: the task is RUNNING and still enabled. The
  loop wakes up at 11:01:15 and creates a second unit for the task, which starts; the
  two units end at 11:01:20 and 11:01:30. The handler has been called twice and the task
  has \<open>run_count = 2\<close>, in the registry and in the store. And with a handler that
  raises a \<open>BaseException\<close> (\<open>asyncio.CancelledError\<close> is one), the task is
  disabled and its status stays RUNNING.
\<close>

theorem once_task_dispatched_twice_counterexample:
  "(let s1 = run_events stdlib empty_scheduler
        [EvSetTaskHandler (\<lambda>_. Returned),
         EvAddTask 63906922800000000 ''id1'' ''Reminder'' ONCE ''2026-02-16T11:01:00'' [] None Written,
         EvStart,
         EvWakeUp 63906922865000000,
         EvUnitStart ''id1'',
         EvWakeUp 63906922875000000];
        s2 = run_events stdlib s1
        [EvUnitStart ''id1'',
         EvUnitFinish ''id1'' 63906922880000000 63906922880000000 Written,
         EvUnitFinish ''id1'' 63906922890000000 63906922890000000 Written];
        s3 = run_events stdlib empty_scheduler
        [EvSetTaskHandler (\<lambda>_. RaisedBaseException ''CancelledError''),
         EvAddTask 63906922800000000 ''id1'' ''Reminder'' ONCE ''2026-02-16T11:01:00'' [] None Written,
         EvStart,
         EvWakeUp 63906922865000000,
         EvUnitStart ''id1'',
         EvUnitFinish ''id1'' 63906922866000000 63906922866000000 Written]
    in (map_option (\<lambda>t. (enabled t, status t)) (get_task s1 ''id1''),
        created s1, map fst (awaiting s1),
        map_option (\<lambda>t. (enabled t, status t, run_count t, last_run t)) (get_task s2 ''id1''),
        map_option col_run_count (map_of (db s2) ''id1''),
        map_option (\<lambda>t. (enabled t, status t)) (get_task s3 ''id1'')))
   = (Some (True, RUNNING), [''id1''], [''id1''],
      Some (False, COMPLETED, 2, Some 63906922890000000), Some 2,
      Some (False, RUNNING))"
  by code_simp

subsection \<open>C5: the next run of an interval task\<close>




end
